theory Spec2Isabelle
  imports Complex_Main "HOL-Library.Word" "HOL-Library.Signed_Division"
begin

unbundle bit_operations_syntax

section \<open>Numeric model\<close>

text \<open>
  The program computes in IEEE double precision.  This development idealises a
  \<^verbatim>\<open>double\<close> as a real number: rounding, overflow and the values infinity and NaN are not
  modelled.  Every division of the source is written as a division here, and the divisors
  that \<^verbatim>\<open>Strapdown::Mechanize\<close> uses are also collected in a list, so that "no division by
  zero" is a statement about the program and not about the total division of HOL.  One
  divisor of that list is not idealised: the norm by which line 130 divides.  In double
  arithmetic the squares of small coefficients underflow, so that \<^verbatim>\<open>norm()\<close> of a vector
  that is not zero can be \<open>0.0\<close>; the list takes the value that \<^verbatim>\<open>norm()\<close> returns as an
  argument.

  Eigen's fixed-size vectors and matrices are records of their coefficients; the field
  \<open>xk\<close> of a \<open>Vector3d\<close> is the coefficient \<^verbatim>\<open>v(k)\<close>, the field \<open>yk\<close> of a \<open>Vector4d\<close> likewise,
  and a matrix is the record of its rows.
\<close>

record Vector3d =
  x0 :: real
  x1 :: real
  x2 :: real

record Vector4d =
  y0 :: real
  y1 :: real
  y2 :: real
  y3 :: real

record Matrix3d =
  r0 :: Vector3d
  r1 :: Vector3d
  r2 :: Vector3d

record Matrix4d =
  m0 :: Vector4d
  m1 :: Vector4d
  m2 :: Vector4d
  m3 :: Vector4d

definition Zero3 :: Vector3d where
  "Zero3 = \<lparr>x0 = 0, x1 = 0, x2 = 0\<rparr>"

definition Zero4 :: Vector4d where
  "Zero4 = \<lparr>y0 = 0, y1 = 0, y2 = 0, y3 = 0\<rparr>"

definition add3 :: "Vector3d \<Rightarrow> Vector3d \<Rightarrow> Vector3d" where
  "add3 a b = \<lparr>x0 = x0 a + x0 b, x1 = x1 a + x1 b, x2 = x2 a + x2 b\<rparr>"

definition sub3 :: "Vector3d \<Rightarrow> Vector3d \<Rightarrow> Vector3d" where
  "sub3 a b = \<lparr>x0 = x0 a - x0 b, x1 = x1 a - x1 b, x2 = x2 a - x2 b\<rparr>"

definition scale3 :: "Vector3d \<Rightarrow> real \<Rightarrow> Vector3d" where
  "scale3 a k = \<lparr>x0 = x0 a * k, x1 = x1 a * k, x2 = x2 a * k\<rparr>"

definition dot3 :: "Vector3d \<Rightarrow> Vector3d \<Rightarrow> real" where
  "dot3 a b = x0 a * x0 b + x1 a * x1 b + x2 a * x2 b"

definition norm3 :: "Vector3d \<Rightarrow> real" where
  "norm3 a = sqrt (x0 a * x0 a + x1 a * x1 a + x2 a * x2 a)"

definition dot4 :: "Vector4d \<Rightarrow> Vector4d \<Rightarrow> real" where
  "dot4 a b = y0 a * y0 b + y1 a * y1 b + y2 a * y2 b + y3 a * y3 b"

definition norm4 :: "Vector4d \<Rightarrow> real" where
  "norm4 a = sqrt (y0 a * y0 a + y1 a * y1 a + y2 a * y2 a + y3 a * y3 a)"

definition div4 :: "Vector4d \<Rightarrow> real \<Rightarrow> Vector4d" where
  "div4 a k = \<lparr>y0 = y0 a / k, y1 = y1 a / k, y2 = y2 a / k, y3 = y3 a / k\<rparr>"

definition transpose3 :: "Matrix3d \<Rightarrow> Matrix3d" where
  "transpose3 A =
     \<lparr>r0 = \<lparr>x0 = x0 (r0 A), x1 = x0 (r1 A), x2 = x0 (r2 A)\<rparr>,
      r1 = \<lparr>x0 = x1 (r0 A), x1 = x1 (r1 A), x2 = x1 (r2 A)\<rparr>,
      r2 = \<lparr>x0 = x2 (r0 A), x1 = x2 (r1 A), x2 = x2 (r2 A)\<rparr>\<rparr>"

definition mul3 :: "Matrix3d \<Rightarrow> Vector3d \<Rightarrow> Vector3d" where
  "mul3 A v = \<lparr>x0 = dot3 (r0 A) v, x1 = dot3 (r1 A) v, x2 = dot3 (r2 A) v\<rparr>"

definition mul4 :: "Matrix4d \<Rightarrow> Vector4d \<Rightarrow> Vector4d" where
  "mul4 A v = \<lparr>y0 = dot4 (m0 A) v, y1 = dot4 (m1 A) v, y2 = dot4 (m2 A) v, y3 = dot4 (m3 A) v\<rparr>"

section \<open>The navtools library\<close>

text \<open>
  \<^verbatim>\<open>navtools\<close> is a separate library: the WGS-84 constants and the attitude conversions that
  \<^verbatim>\<open>strapdown.cpp\<close> takes from it are not part of this repository.  The model is parametric in
  them.  The conversions write their first argument from their second; here they return it.
\<close>

record navtools =
  WGS84_E2 :: real
  WGS84_R0 :: real
  WGS84_RP :: real
  WGS84_MU :: real
  WGS84_OMEGA :: real
  WGS84_F :: real
  euler2quat :: "Vector3d \<Rightarrow> Vector4d"
  quat2dcm :: "Vector4d \<Rightarrow> Matrix3d"
  dcm2quat :: "Matrix3d \<Rightarrow> Vector4d"

text \<open>
  What the proofs need of the ellipsoid: a positive equatorial radius and a squared
  eccentricity in \<open>[0, 1)\<close> (WGS-84 has \<open>R0 = 6378137\<close> and \<open>e\<^sup>2\<close> close to \<open>0.0067\<close>).
\<close>

definition wgs84_ellipsoid :: "navtools \<Rightarrow> bool" where
  "wgs84_ellipsoid nt = (0 < WGS84_R0 nt \<and> 0 \<le> WGS84_E2 nt \<and> WGS84_E2 nt < 1)"

section \<open>Strapdown (src/strapdown.cpp)\<close>

text \<open>
  The members of the class, as \<^verbatim>\<open>strapdown.cpp\<close> uses them.  An Isabelle name cannot end in
  an underscore, so the member \<^verbatim>\<open>phi_\<close> is the field \<open>phi_m\<close>, and so on.
\<close>

record Strapdown =
  phi_m :: real
  lam_m :: real
  h_m :: real
  vn_m :: real
  ve_m :: real
  vd_m :: real
  q_b_l_m :: Vector4d
  C_b_l_m :: Matrix3d
  sL_m :: real
  cL_m :: real
  tL_m :: real
  sLsq_m :: real
  Re_m :: real
  Rn_m :: real
  He_m :: real
  Hn_m :: real
  g0_m :: real
  X1ME2_m :: real
  g_m :: Vector3d
  w_en_n_m :: Vector3d
  w_ie_n_m :: Vector3d
  wR0sqRpMu_m :: real

text \<open>
  The constructors.  A member that the constructor does not initialise keeps whatever the
  storage held; the argument \<open>u\<close> supplies those values.
\<close>

definition Strapdown_default :: "navtools \<Rightarrow> Strapdown \<Rightarrow> Strapdown" where
  "Strapdown_default nt u =
     u\<lparr>X1ME2_m := 1.0 - WGS84_E2 nt,
       g_m := Zero3,
       w_en_n_m := Zero3,
       w_ie_n_m := Zero3,
       wR0sqRpMu_m :=
         WGS84_OMEGA nt * WGS84_OMEGA nt * WGS84_R0 nt * WGS84_R0 nt * WGS84_RP nt / WGS84_MU nt\<rparr>"

definition Strapdown_init ::
  "navtools \<Rightarrow> Strapdown \<Rightarrow> real \<Rightarrow> real \<Rightarrow> real \<Rightarrow> real \<Rightarrow> real \<Rightarrow> real \<Rightarrow> real \<Rightarrow> real \<Rightarrow> real
     \<Rightarrow> Strapdown" where
  "Strapdown_init nt u lat lon alt veln vele veld roll pitch yaw =
     (let rpy = \<lparr>x0 = roll, x1 = pitch, x2 = yaw\<rparr>;
          q = euler2quat nt rpy
      in u\<lparr>phi_m := lat,
           lam_m := lon,
           h_m := alt,
           vn_m := veln,
           ve_m := vele,
           vd_m := veld,
           X1ME2_m := 1.0 - WGS84_E2 nt,
           g_m := Zero3,
           w_en_n_m := Zero3,
           w_ie_n_m := Zero3,
           wR0sqRpMu_m :=
             WGS84_OMEGA nt * WGS84_OMEGA nt * WGS84_R0 nt * WGS84_R0 nt * WGS84_RP nt / WGS84_MU nt,
           q_b_l_m := q,
           C_b_l_m := quat2dcm nt q\<rparr>)"

definition SetPosition :: "Strapdown \<Rightarrow> real \<Rightarrow> real \<Rightarrow> real \<Rightarrow> Strapdown" where
  "SetPosition s lat lon alt = s\<lparr>phi_m := lat, lam_m := lon, h_m := alt\<rparr>"

definition SetVelocity :: "Strapdown \<Rightarrow> real \<Rightarrow> real \<Rightarrow> real \<Rightarrow> Strapdown" where
  "SetVelocity s veln vele veld = s\<lparr>vn_m := veln, ve_m := vele, vd_m := veld\<rparr>"

text \<open>The two overloads of \<^verbatim>\<open>SetAttitude\<close>: from Euler angles, and from a matrix.\<close>

definition SetAttitude :: "navtools \<Rightarrow> Strapdown \<Rightarrow> real \<Rightarrow> real \<Rightarrow> real \<Rightarrow> Strapdown" where
  "SetAttitude nt s roll pitch yaw =
     (let rpy = \<lparr>x0 = roll, x1 = pitch, x2 = yaw\<rparr>;
          q = euler2quat nt rpy
      in s\<lparr>q_b_l_m := q, C_b_l_m := quat2dcm nt q\<rparr>)"

definition SetAttitude_dcm :: "navtools \<Rightarrow> Strapdown \<Rightarrow> Matrix3d \<Rightarrow> Strapdown" where
  "SetAttitude_dcm nt s C = s\<lparr>C_b_l_m := C, q_b_l_m := dcm2quat nt C\<rparr>"

subsection \<open>The Earth model members\<close>

definition GravityVector :: "navtools \<Rightarrow> Strapdown \<Rightarrow> Strapdown" where
  "GravityVector nt s =
     (let hR0sq = h_m s / WGS84_R0 nt;
          hR0sq = hR0sq * hR0sq
      in s\<lparr>g_m := (g_m s)
             \<lparr>x0 := - (8.08 / 10 ^ 9) * h_m s * sin (2.0 * phi_m s),
              x2 := g0_m s * (1.0 -
                      (2.0 * h_m s / WGS84_R0 nt) *
                        (1.0 + WGS84_F nt * (1.0 - 2.0 * sLsq_m s) + wR0sqRpMu_m s) +
                      3.0 * hR0sq)\<rparr>\<rparr>)"

definition EarthRateVector :: "navtools \<Rightarrow> Strapdown \<Rightarrow> Strapdown" where
  "EarthRateVector nt s =
     s\<lparr>w_ie_n_m := (w_ie_n_m s)
         \<lparr>x0 := WGS84_OMEGA nt * cL_m s,
          x2 := WGS84_OMEGA nt * sL_m s\<rparr>\<rparr>"

definition TransportRateVector :: "Strapdown \<Rightarrow> Strapdown" where
  "TransportRateVector s =
     (let w0 = ve_m s / He_m s;
          w1 = - vn_m s / Hn_m s;
          w2 = - w0 * tL_m s
      in s\<lparr>w_en_n_m := \<lparr>x0 = w0, x1 = w1, x2 = w2\<rparr>\<rparr>)"

subsection \<open>Mechanize\<close>

text \<open>Lines 90-105: the functions of latitude, the radii of curvature and normal gravity.\<close>

definition Mechanize_latitude :: "navtools \<Rightarrow> Strapdown \<Rightarrow> Strapdown" where
  "Mechanize_latitude nt s =
     (let sL = sin (phi_m s);
          cL = cos (phi_m s);
          tL = sL / cL;
          sLsq = sL * sL;
          t = 1.0 - WGS84_E2 nt * sLsq;
          sqt = sqrt t;
          Re = WGS84_R0 nt / sqt;
          Rn = WGS84_R0 nt * X1ME2_m s / (t * t / sqt)
      in s\<lparr>sL_m := sL,
           cL_m := cL,
           tL_m := tL,
           sLsq_m := sLsq,
           Re_m := Re,
           Rn_m := Rn,
           He_m := Re + h_m s,
           Hn_m := Rn + h_m s,
           g0_m := 9.7803253359 * ((1.0 + 0.001931853 * sLsq) / sqt)\<rparr>)"

text \<open>Lines 90-108: the state when the attitude integration starts.\<close>

definition Mechanize_earth :: "navtools \<Rightarrow> Strapdown \<Rightarrow> Strapdown" where
  "Mechanize_earth nt s =
     TransportRateVector (EarthRateVector nt (GravityVector nt (Mechanize_latitude nt s)))"

text \<open>Line 109, the local \<^verbatim>\<open>we\<close>.\<close>

definition Mechanize_we :: "Strapdown \<Rightarrow> Vector3d" where
  "Mechanize_we e = add3 (w_ie_n_m e) (scale3 (w_en_n_m e) 2.0)"

text \<open>Lines 112-120: the rotation vector, its half angle, and the scaled vector.\<close>

definition Mechanize_psi :: "Strapdown \<Rightarrow> Vector3d \<Rightarrow> real \<Rightarrow> Vector3d" where
  "Mechanize_psi e wb dt =
     scale3 (sub3 wb (mul3 (transpose3 (C_b_l_m e)) (add3 (w_ie_n_m e) (w_en_n_m e)))) dt"

definition Mechanize_gamma :: "Strapdown \<Rightarrow> Vector3d \<Rightarrow> real \<Rightarrow> real" where
  "Mechanize_gamma e wb dt = 0.5 * norm3 (Mechanize_psi e wb dt)"

definition Mechanize_psi_scaled :: "Strapdown \<Rightarrow> Vector3d \<Rightarrow> real \<Rightarrow> Vector3d" where
  "Mechanize_psi_scaled e wb dt =
     (let psi = Mechanize_psi e wb dt;
          gamma = Mechanize_gamma e wb dt
      in if gamma < 1 / 10 ^ 5 then scale3 psi 0.5
         else (let sgamma = sin gamma in scale3 psi (0.5 * sgamma / gamma)))"

text \<open>Lines 121-128: the matrix \<^verbatim>\<open>qdot\<close>.\<close>

definition qdot :: "real \<Rightarrow> Vector3d \<Rightarrow> Matrix4d" where
  "qdot cgamma psi =
     \<lparr>m0 = \<lparr>y0 = cgamma, y1 = - x0 psi, y2 = - x1 psi, y3 = - x2 psi\<rparr>,
      m1 = \<lparr>y0 = x0 psi, y1 = cgamma, y2 = x2 psi, y3 = - x1 psi\<rparr>,
      m2 = \<lparr>y0 = x1 psi, y1 = - x2 psi, y2 = cgamma, y3 = x0 psi\<rparr>,
      m3 = \<lparr>y0 = x2 psi, y1 = x1 psi, y2 = - x0 psi, y3 = cgamma\<rparr>\<rparr>"

text \<open>Line 129: the product, before it is normalised.\<close>

definition Mechanize_q_raw :: "Strapdown \<Rightarrow> Vector3d \<Rightarrow> real \<Rightarrow> Vector4d" where
  "Mechanize_q_raw e wb dt =
     mul4 (qdot (cos (Mechanize_gamma e wb dt)) (Mechanize_psi_scaled e wb dt)) (q_b_l_m e)"

text \<open>Lines 129-130.\<close>

definition Mechanize_q :: "Strapdown \<Rightarrow> Vector3d \<Rightarrow> real \<Rightarrow> Vector4d" where
  "Mechanize_q e wb dt =
     (let q = Mechanize_q_raw e wb dt in div4 q (norm4 q))"

text \<open>Lines 133-136: the velocity deltas \<^verbatim>\<open>dv_n\<close>, \<^verbatim>\<open>dv_e\<close>, \<^verbatim>\<open>dv_d\<close>.\<close>

definition Mechanize_dv :: "Strapdown \<Rightarrow> Vector3d \<Rightarrow> real \<Rightarrow> Vector3d" where
  "Mechanize_dv e fb dt =
     (let we = Mechanize_we e;
          fn = mul3 (C_b_l_m e) fb
      in \<lparr>x0 = (x0 fn + x0 (g_m e) - (x1 we * vd_m e - x2 we * ve_m e)) * dt,
          x1 = (x1 fn + x1 (g_m e) - (x0 we * vd_m e - x2 we * vn_m e)) * dt,
          x2 = (x2 fn + x2 (g_m e) - (x0 we * ve_m e - x1 we * vn_m e)) * dt\<rparr>)"

text \<open>
  The whole call.  The assignments of lines 129-147 are one record update, whose right-hand
  sides read the state \<open>e\<close> of line 108: the source reads \<^verbatim>\<open>C_b_l_\<close>, the velocity, the
  radii and \<^verbatim>\<open>cL_\<close> before it overwrites any of them, and the quaternion is read only by the
  attitude integration.
\<close>

definition Mechanize :: "navtools \<Rightarrow> Strapdown \<Rightarrow> Vector3d \<Rightarrow> Vector3d \<Rightarrow> real \<Rightarrow> Strapdown" where
  "Mechanize nt s wb fb dt =
     (let e = Mechanize_earth nt s;
          q = Mechanize_q e wb dt;
          dv = Mechanize_dv e fb dt
      in e\<lparr>q_b_l_m := q,
           phi_m := phi_m e + (vn_m e + 0.5 * x0 dv) / Hn_m e * dt,
           lam_m := lam_m e + (ve_m e + 0.5 * x1 dv) / (He_m e * cL_m e) * dt,
           h_m := h_m e - (vd_m e + 0.5 * x2 dv) * dt,
           C_b_l_m := quat2dcm nt q,
           vn_m := vn_m e + x0 dv,
           ve_m := ve_m e + x1 dv,
           vd_m := vd_m e + x2 dv\<rparr>)"

text \<open>
  The divisors of one call, in the order of the source: lines 93, 99, 100 (twice), 105, 152,
  157, 171, 172, 119 (only in the branch that divides), 130, 139 and 140.  The argument
  \<open>nrm\<close> is Eigen's \<^verbatim>\<open>norm()\<close> on a \<^verbatim>\<open>Vector4d\<close> as the program computes it, in double
  arithmetic; line 130 applies it to the product of line 129.  With \<open>norm4\<close> for \<open>nrm\<close> the
  list is the one of exact arithmetic.
\<close>

definition Mechanize_divisors ::
  "navtools \<Rightarrow> (Vector4d \<Rightarrow> real) \<Rightarrow> Strapdown \<Rightarrow> Vector3d \<Rightarrow> real \<Rightarrow> real list" where
  "Mechanize_divisors nt nrm s wb dt =
     (let e = Mechanize_earth nt s;
          t = 1.0 - WGS84_E2 nt * sLsq_m e;
          sqt = sqrt t;
          gamma = Mechanize_gamma e wb dt
      in [cL_m e, sqt, sqt, t * t / sqt, sqt, WGS84_R0 nt, WGS84_R0 nt, He_m e, Hn_m e]
         @ (if gamma < 1 / 10 ^ 5 then [] else [gamma])
         @ [nrm (Mechanize_q_raw e wb dt), Hn_m e, He_m e * cL_m e])"

text \<open>
  A model of \<^verbatim>\<open>norm()\<close> that keeps the one effect of double arithmetic by which it can
  return zero: a square that is at most \<open>1 / 2 ^ 1075\<close>, half the least positive double,
  rounds to zero.  Nothing else is rounded.
\<close>

definition double_square :: "real \<Rightarrow> real" where
  "double_square v = (if v * v \<le> 1 / 2 ^ 1075 then 0 else v * v)"

definition double_norm4 :: "Vector4d \<Rightarrow> real" where
  "double_norm4 a =
     sqrt (double_square (y0 a) + double_square (y1 a) + double_square (y2 a) +
           double_square (y3 a))"

text \<open>
  The quaternion and the matrix are synchronised when one of them is the conversion of the
  other: the pair is stale when an operation has changed one and not recomputed the other.
\<close>

definition pair_synchronised :: "navtools \<Rightarrow> Strapdown \<Rightarrow> bool" where
  "pair_synchronised nt s =
     (C_b_l_m s = quat2dcm nt (q_b_l_m s) \<or> q_b_l_m s = dcm2quat nt (C_b_l_m s))"

text \<open>A run of calls, one for each IMU sample \<open>(wb, fb, dt)\<close>.\<close>

fun Mechanize_all :: "navtools \<Rightarrow> Strapdown \<Rightarrow> (Vector3d \<times> Vector3d \<times> real) list \<Rightarrow> Strapdown" where
  "Mechanize_all nt s [] = s"
| "Mechanize_all nt s ((wb, fb, dt) # rest) = Mechanize_all nt (Mechanize nt s wb fb dt) rest"


text \<open>
  The inputs of a platform in static equilibrium, for a run that starts in \<open>s\<close>: every
  sample has zero angular rate, and its specific force cancels gravity and the Coriolis
  terms in the state the call starts from, so that the three velocity deltas of that call are
  zero.
\<close>

fun static_inputs :: "navtools \<Rightarrow> Strapdown \<Rightarrow> (Vector3d \<times> Vector3d \<times> real) list \<Rightarrow> bool" where
  "static_inputs nt s [] = True"
| "static_inputs nt s ((wb, fb, dt) # rest) =
     (wb = Zero3 \<and> Mechanize_dv (Mechanize_earth nt s) fb dt = Zero3 \<and>
      static_inputs nt (Mechanize nt s wb fb dt) rest)"

text \<open>The vector product, to compare the Coriolis terms of lines 134-136 with.\<close>

definition cross3 :: "Vector3d \<Rightarrow> Vector3d \<Rightarrow> Vector3d" where
  "cross3 a b =
     \<lparr>x0 = x1 a * x2 b - x2 a * x1 b,
      x1 = x2 a * x0 b - x0 a * x2 b,
      x2 = x0 a * x1 b - x1 a * x0 b\<rparr>"

text \<open>
  The states a caller can hold: an object comes from one of the two constructors and is
  changed by the public member functions only.
\<close>

inductive reachable :: "navtools \<Rightarrow> Strapdown \<Rightarrow> bool" for nt :: navtools where
  reach_default: "reachable nt (Strapdown_default nt u)"
| reach_init: "reachable nt (Strapdown_init nt u lat lon alt veln vele veld roll pitch yaw)"
| reach_SetPosition: "reachable nt s \<Longrightarrow> reachable nt (SetPosition s lat lon alt)"
| reach_SetVelocity: "reachable nt s \<Longrightarrow> reachable nt (SetVelocity s veln vele veld)"
| reach_SetAttitude: "reachable nt s \<Longrightarrow> reachable nt (SetAttitude nt s roll pitch yaw)"
| reach_SetAttitude_dcm: "reachable nt s \<Longrightarrow> reachable nt (SetAttitude_dcm nt s C)"
| reach_Mechanize: "reachable nt s \<Longrightarrow> reachable nt (Mechanize nt s wb fb dt)"

section \<open>GaussNewton (include/sturdins/least-squares.hpp)\<close>

text \<open>
  The header declares \<^verbatim>\<open>bool GaussNewton(x, P, sv_pos, sv_vel, psr, psrdot, psr_var,
  psrdot_var)\<close>: the estimate \<^verbatim>\<open>x\<close> and the covariance \<^verbatim>\<open>P\<close> are passed by reference and
  updated, the six observation arrays are read.  Eigen's dynamic vectors and matrices are
  lists here.  The body of the function is not among the sources.
\<close>

type_synonym VectorXd = "real list"
type_synonym MatrixXd = "real list list"

record ObservationEpoch =
  sv_pos :: MatrixXd
  sv_vel :: MatrixXd
  psr :: VectorXd
  psrdot :: VectorXd
  psr_var :: VectorXd
  psrdot_var :: VectorXd

definition add_update :: "VectorXd \<Rightarrow> VectorXd \<Rightarrow> VectorXd" where
  "add_update x dx = map2 (+) x dx"

definition update_norm :: "VectorXd \<Rightarrow> real" where
  "update_norm dx = sqrt (sum_list (map (\<lambda>v. v * v) dx))"

text \<open>
  Modelled from the spec: the numerical work inside one iteration of \<^verbatim>\<open>GaussNewton\<close>, whose
  source (the implementation of least-squares.hpp) is missing.  The specification names the
  steps and leaves their arithmetic, the threshold and the cap open, so they are parameters:
  the weighted information matrix at an estimate, the test that this matrix is singular or
  ill-conditioned, the solution of the weighted normal equations (the update), the inverse
  that becomes the covariance, the convergence threshold and the maximum iteration count.
\<close>

record least_squares_numerics =
  information_matrix :: "VectorXd \<Rightarrow> ObservationEpoch \<Rightarrow> MatrixXd"
  ill_conditioned :: "MatrixXd \<Rightarrow> bool"
  normal_equations :: "VectorXd \<Rightarrow> ObservationEpoch \<Rightarrow> VectorXd"
  covariance_of :: "MatrixXd \<Rightarrow> MatrixXd"
  convergence_threshold :: real
  iteration_cap :: nat

text \<open>
  Modelled from the spec: the iteration of \<^verbatim>\<open>GaussNewton\<close>, whose source is missing.  By
  section 4.3 an iteration builds the design matrix, forms the residual vector, solves the
  weighted normal equations, applies the update to the estimate and recomputes the covariance
  as the inverse of the weighted information matrix; the function "iterates until the update
  norm falls below a convergence threshold or a maximum iteration count is reached" and
  "returns false (non-convergence) if the iteration cap is hit or if the information matrix
  is singular/ill-conditioned".  The first argument counts the iterations that are left.
\<close>

fun GaussNewton_iterate ::
  "least_squares_numerics \<Rightarrow> ObservationEpoch \<Rightarrow> nat \<Rightarrow> VectorXd \<Rightarrow> MatrixXd
     \<Rightarrow> bool \<times> VectorXd \<times> MatrixXd" where
  "GaussNewton_iterate ls ep 0 x P = (False, x, P)"
| "GaussNewton_iterate ls ep (Suc k) x P =
     (let N = information_matrix ls x ep
      in if ill_conditioned ls N then (False, x, P)
         else
           (let dx = normal_equations ls x ep;
                x' = add_update x dx;
                P' = covariance_of ls N
            in if update_norm dx < convergence_threshold ls then (True, x', P')
               else GaussNewton_iterate ls ep k x' P'))"

text \<open>
  Modelled from the spec: the body of \<^verbatim>\<open>GaussNewton\<close>, whose source is missing.  Fewer than
  four satellites are the error \<open>InsufficientObservations\<close> of section 7, "reported via a
  boolean/status return"; the count is the length of the pseudorange array.  The result is
  the status with the estimate and the covariance as the call leaves them.
\<close>

definition GaussNewton ::
  "least_squares_numerics \<Rightarrow> VectorXd \<Rightarrow> MatrixXd \<Rightarrow> MatrixXd \<Rightarrow> MatrixXd \<Rightarrow> VectorXd \<Rightarrow> VectorXd
     \<Rightarrow> VectorXd \<Rightarrow> VectorXd \<Rightarrow> bool \<times> VectorXd \<times> MatrixXd" where
  "GaussNewton ls x P svp svv rho rhodot rho_var rhodot_var =
     (let ep = \<lparr>sv_pos = svp, sv_vel = svv, psr = rho, psrdot = rhodot,
                psr_var = rho_var, psrdot_var = rhodot_var\<rparr>
      in if length rho < 4 then (False, x, P)
         else GaussNewton_iterate ls ep (iteration_cap ls) x P)"

text \<open>
  To state what the status means: the estimate after \<open>i\<close> updates, whether the information
  matrix there is usable, and whether the update computed there is below the threshold.
\<close>

fun estimate_after :: "least_squares_numerics \<Rightarrow> ObservationEpoch \<Rightarrow> VectorXd \<Rightarrow> nat \<Rightarrow> VectorXd" where
  "estimate_after ls ep x 0 = x"
| "estimate_after ls ep x (Suc i) =
     estimate_after ls ep (add_update x (normal_equations ls x ep)) i"

definition usable_at :: "least_squares_numerics \<Rightarrow> ObservationEpoch \<Rightarrow> VectorXd \<Rightarrow> nat \<Rightarrow> bool" where
  "usable_at ls ep x i =
     (\<not> ill_conditioned ls (information_matrix ls (estimate_after ls ep x i) ep))"

definition converged_at :: "least_squares_numerics \<Rightarrow> ObservationEpoch \<Rightarrow> VectorXd \<Rightarrow> nat \<Rightarrow> bool" where
  "converged_at ls ep x i =
     (update_norm (normal_equations ls (estimate_after ls ep x i) ep) < convergence_threshold ls)"

section \<open>A sample instance and sample objects\<close>

text \<open>
  Concrete runs need concrete values for the parameters.  The sample instance takes the
  published WGS-84 values and the usual conversions between Euler angles (roll, pitch, yaw),
  a scalar-first quaternion and its direction cosine matrix.  No theorem below depends on
  this choice, only the examples do.
\<close>

definition sample_euler2quat :: "Vector3d \<Rightarrow> Vector4d" where
  "sample_euler2quat rpy =
     (let cr = cos (x0 rpy / 2); sr = sin (x0 rpy / 2);
          cp = cos (x1 rpy / 2); sp = sin (x1 rpy / 2);
          cy = cos (x2 rpy / 2); sy = sin (x2 rpy / 2)
      in \<lparr>y0 = cr * cp * cy + sr * sp * sy,
          y1 = sr * cp * cy - cr * sp * sy,
          y2 = cr * sp * cy + sr * cp * sy,
          y3 = cr * cp * sy - sr * sp * cy\<rparr>)"

definition sample_quat2dcm :: "Vector4d \<Rightarrow> Matrix3d" where
  "sample_quat2dcm q =
     (let a = y0 q; b = y1 q; c = y2 q; d = y3 q
      in \<lparr>r0 = \<lparr>x0 = a * a + b * b - c * c - d * d,
                 x1 = 2 * (b * c - a * d),
                 x2 = 2 * (b * d + a * c)\<rparr>,
          r1 = \<lparr>x0 = 2 * (b * c + a * d),
                 x1 = a * a - b * b + c * c - d * d,
                 x2 = 2 * (c * d - a * b)\<rparr>,
          r2 = \<lparr>x0 = 2 * (b * d - a * c),
                 x1 = 2 * (c * d + a * b),
                 x2 = a * a - b * b - c * c + d * d\<rparr>\<rparr>)"

definition sample_dcm2quat :: "Matrix3d \<Rightarrow> Vector4d" where
  "sample_dcm2quat C =
     (let a = sqrt (1 + x0 (r0 C) + x1 (r1 C) + x2 (r2 C)) / 2
      in \<lparr>y0 = a,
          y1 = (x1 (r2 C) - x2 (r1 C)) / (4 * a),
          y2 = (x2 (r0 C) - x0 (r2 C)) / (4 * a),
          y3 = (x0 (r1 C) - x1 (r0 C)) / (4 * a)\<rparr>)"

definition sample_navtools :: navtools where
  "sample_navtools =
     \<lparr>WGS84_E2 = 0.00669437999014,
      WGS84_R0 = 6378137,
      WGS84_RP = 6356752.31425,
      WGS84_MU = 3.986004418 * 10 ^ 14,
      WGS84_OMEGA = 7.2921151467 / 10 ^ 5,
      WGS84_F = 1 / 298.257223563,
      euler2quat = sample_euler2quat,
      quat2dcm = sample_quat2dcm,
      dcm2quat = sample_dcm2quat\<rparr>"

definition Identity3 :: Matrix3d where
  "Identity3 =
     \<lparr>r0 = \<lparr>x0 = 1, x1 = 0, x2 = 0\<rparr>,
      r1 = \<lparr>x0 = 0, x1 = 1, x2 = 0\<rparr>,
      r2 = \<lparr>x0 = 0, x1 = 0, x2 = 1\<rparr>\<rparr>"

text \<open>
  Storage in which every byte is zero: every \<^verbatim>\<open>double\<close> in it reads \<open>0.0\<close>.  This is what
  an object of static storage duration is made in, since its storage is zero-initialised
  before the constructor runs, and what fresh memory often holds.
\<close>

definition zero_storage :: Strapdown where
  "zero_storage =
     \<lparr>phi_m = 0, lam_m = 0, h_m = 0, vn_m = 0, ve_m = 0, vd_m = 0,
      q_b_l_m = Zero4,
      C_b_l_m = \<lparr>r0 = Zero3, r1 = Zero3, r2 = Zero3\<rparr>,
      sL_m = 0, cL_m = 0, tL_m = 0, sLsq_m = 0, Re_m = 0, Rn_m = 0, He_m = 0, Hn_m = 0,
      g0_m = 0, X1ME2_m = 0, g_m = Zero3, w_en_n_m = Zero3, w_ie_n_m = Zero3,
      wR0sqRpMu_m = 0\<rparr>"

text \<open>
  \<^verbatim>\<open>Strapdown s;\<close> in such storage: the attitude has not been set.
\<close>

definition unset_object :: Strapdown where
  "unset_object = Strapdown_default sample_navtools zero_storage"

text \<open>
  \<^verbatim>\<open>Strapdown s(0, 0, 0, 0, 0, 0, 0, 0, 0);\<close>: on the equator at the prime meridian, on the
  ellipsoid, at rest, level and heading north.
\<close>

definition level_object :: Strapdown where
  "level_object = Strapdown_init sample_navtools zero_storage 0 0 0 0 0 0 0 0 0"

text \<open>The specific force that a level accelerometer at rest measures there.\<close>

definition level_force :: Vector3d where
  "level_force = \<lparr>x0 = 0, x1 = 0, x2 = - 9.7803253359\<rparr>"

text \<open>
  The level object after one call at rest, and the same specific force resolved in the body
  axes as that call leaves them: the Earth's rotation has turned the body frame a little.
\<close>

definition level_after_one :: Strapdown where
  "level_after_one = Mechanize sample_navtools level_object Zero3 level_force (1 / 100)"

definition turned_force :: Vector3d where
  "turned_force = scale3 (r2 (C_b_l_m level_after_one)) (- 9.7803253359)"

text \<open>
  \<^verbatim>\<open>Strapdown s(0, 0, 0, 0, 0, 1, 0, 0, 0);\<close>: the same place and attitude, sinking at one
  metre per second.
\<close>

definition sinking_object :: Strapdown where
  "sinking_object = Strapdown_init sample_navtools zero_storage 0 0 0 0 0 1 0 0 0"

text \<open>What a level gyroscope at rest measures there: the Earth's rate, which points north.\<close>

definition earth_rate_body :: Vector3d where
  "earth_rate_body = \<lparr>x0 = 7.2921151467 / 10 ^ 5, x1 = 0, x2 = 0\<rparr>"

text \<open>A quaternion that is not zero and whose squares underflow in double arithmetic.\<close>

definition tiny_quaternion :: Vector4d where
  "tiny_quaternion = \<lparr>y0 = 1 / 10 ^ 200, y1 = 0, y2 = 0, y3 = 0\<rparr>"

text \<open>An object whose matrix was overwritten without its quaternion: a stale pair.\<close>

definition stale_object :: Strapdown where
  "stale_object = level_object\<lparr>C_b_l_m := \<lparr>r0 = Zero3, r1 = Zero3, r2 = Zero3\<rparr>\<rparr>"

text \<open>An angular rate of one radian per second about the body's first axis.\<close>

definition roll_rate :: Vector3d where
  "roll_rate = \<lparr>x0 = 1, x1 = 0, x2 = 0\<rparr>"

text \<open>
  Sample numerics for an estimate that already solves the normal equations: the update is
  zero, the information matrix is the unit matrix and counts as usable.
\<close>

definition settled_numerics :: least_squares_numerics where
  "settled_numerics =
     \<lparr>information_matrix = (\<lambda>x ep. map (\<lambda>i. map (\<lambda>j. if i = j then 1 else 0) [0..<8]) [0..<8]),
      ill_conditioned = (\<lambda>N. N = []),
      normal_equations = (\<lambda>x ep. replicate 8 0),
      covariance_of = (\<lambda>N. N),
      convergence_threshold = 1 / 10 ^ 6,
      iteration_cap = 10\<rparr>"

text \<open>Sample numerics whose update never gets small: it is the unit step in the first state.\<close>

definition restless_numerics :: least_squares_numerics where
  "restless_numerics = settled_numerics\<lparr>normal_equations := (\<lambda>x ep. 1 # replicate 7 0)\<rparr>"

section \<open>The simulation driver's GNSS guard (tests/test_sim_ins.cpp)\<close>

text \<open>
  The driver counts its loop iterations in \<^verbatim>\<open>int i = 0\<close>, a 32-bit two's complement
  integer, and guards the GNSS branch with \<^verbatim>\<open>if (~(i % 20))\<close>.  The remainder of C++
  truncates towards zero (the sign follows the dividend), which is \<open>smod\<close> on the signed
  reading of the word; \<^verbatim>\<open>~\<close> is the bitwise complement; a condition is taken when its
  value is not zero.
\<close>

type_synonym c_int = "32 word"

definition c_rem :: "c_int \<Rightarrow> c_int \<Rightarrow> c_int" where
  "c_rem a b = word_of_int (sint a smod sint b)"

definition gnss_guard_value :: "c_int \<Rightarrow> c_int" where
  "gnss_guard_value i = NOT (c_rem i 20)"

definition gnss_guard :: "c_int \<Rightarrow> bool" where
  "gnss_guard i = (gnss_guard_value i \<noteq> 0)"

text \<open>
  What one pass through the body of the \<^verbatim>\<open>while (fin.read(...))\<close> loop does to the
  filter and to the outputs, in the order of the source: lines 101-102 always run, lines
  104-136 run under the guard, line 140 increments the counter.
\<close>

datatype driver_event =
    Mechanize_call
  | Propagate_call
  | GnssUpdate_call
  | Result_write
  | Console_print

definition gnss_branch :: "driver_event list" where
  "gnss_branch = [GnssUpdate_call, Result_write, Console_print]"

definition loop_body :: "c_int \<Rightarrow> driver_event list" where
  "loop_body i =
     [Mechanize_call, Propagate_call] @ (if gnss_guard i then gnss_branch else [])"

text \<open>
  The loop runs once for each record read from the truth file; the records themselves do not
  influence the control flow, so the loop is a recursion over their list that threads the
  counter and appends the events.
\<close>

fun main_loop :: "'r list \<Rightarrow> c_int \<Rightarrow> driver_event list \<Rightarrow> c_int \<times> driver_event list" where
  "main_loop [] i tr = (i, tr)"
| "main_loop (r # rs) i tr = main_loop rs (i + 1) (tr @ loop_body i)"

definition main_events :: "'r list \<Rightarrow> driver_event list" where
  "main_events rs = snd (main_loop rs 0 [])"

section \<open>The state when the integration starts\<close>

lemma Mechanize_earth_kept:
  "phi_m (Mechanize_earth nt s) = phi_m s"
  "lam_m (Mechanize_earth nt s) = lam_m s"
  "h_m (Mechanize_earth nt s) = h_m s"
  "vn_m (Mechanize_earth nt s) = vn_m s"
  "ve_m (Mechanize_earth nt s) = ve_m s"
  "vd_m (Mechanize_earth nt s) = vd_m s"
  "q_b_l_m (Mechanize_earth nt s) = q_b_l_m s"
  "C_b_l_m (Mechanize_earth nt s) = C_b_l_m s"
  "X1ME2_m (Mechanize_earth nt s) = X1ME2_m s"
  "wR0sqRpMu_m (Mechanize_earth nt s) = wR0sqRpMu_m s"
  by (simp_all add: Mechanize_earth_def TransportRateVector_def EarthRateVector_def
      GravityVector_def Mechanize_latitude_def Let_def)

lemma Mechanize_earth_latitude:
  "sL_m (Mechanize_earth nt s) = sin (phi_m s)"
  "cL_m (Mechanize_earth nt s) = cos (phi_m s)"
  "tL_m (Mechanize_earth nt s) = sin (phi_m s) / cos (phi_m s)"
  "sLsq_m (Mechanize_earth nt s) = sin (phi_m s) * sin (phi_m s)"
  "Re_m (Mechanize_earth nt s) =
     WGS84_R0 nt / sqrt (1 - WGS84_E2 nt * (sin (phi_m s) * sin (phi_m s)))"
  "Rn_m (Mechanize_earth nt s) =
     WGS84_R0 nt * X1ME2_m s /
       ((1 - WGS84_E2 nt * (sin (phi_m s) * sin (phi_m s))) *
        (1 - WGS84_E2 nt * (sin (phi_m s) * sin (phi_m s))) /
        sqrt (1 - WGS84_E2 nt * (sin (phi_m s) * sin (phi_m s))))"
  "He_m (Mechanize_earth nt s) = Re_m (Mechanize_earth nt s) + h_m s"
  "Hn_m (Mechanize_earth nt s) = Rn_m (Mechanize_earth nt s) + h_m s"
  "g0_m (Mechanize_earth nt s) =
     9.7803253359 * ((1 + 0.001931853 * (sin (phi_m s) * sin (phi_m s))) /
       sqrt (1 - WGS84_E2 nt * (sin (phi_m s) * sin (phi_m s))))"
  by (simp_all add: Mechanize_earth_def TransportRateVector_def EarthRateVector_def
      GravityVector_def Mechanize_latitude_def Let_def)

lemma Mechanize_earth_g:
  "g_m (Mechanize_earth nt s) =
     (g_m s)\<lparr>x0 := - (8.08 / 10 ^ 9) * h_m s * sin (2 * phi_m s),
             x2 := g0_m (Mechanize_earth nt s) *
                    (1 - (2 * h_m s / WGS84_R0 nt) *
                       (1 + WGS84_F nt * (1 - 2 * (sin (phi_m s) * sin (phi_m s))) + wR0sqRpMu_m s) +
                     3 * (h_m s / WGS84_R0 nt * (h_m s / WGS84_R0 nt)))\<rparr>"
  by (simp add: Mechanize_earth_def TransportRateVector_def EarthRateVector_def
      GravityVector_def Mechanize_latitude_def Let_def)

lemma Mechanize_earth_w_ie:
  "w_ie_n_m (Mechanize_earth nt s) =
     (w_ie_n_m s)\<lparr>x0 := WGS84_OMEGA nt * cos (phi_m s), x2 := WGS84_OMEGA nt * sin (phi_m s)\<rparr>"
  by (simp add: Mechanize_earth_def TransportRateVector_def EarthRateVector_def
      GravityVector_def Mechanize_latitude_def Let_def)

lemma Mechanize_earth_w_en:
  "w_en_n_m (Mechanize_earth nt s) =
     \<lparr>x0 = ve_m s / He_m (Mechanize_earth nt s),
      x1 = - vn_m s / Hn_m (Mechanize_earth nt s),
      x2 = - (ve_m s / He_m (Mechanize_earth nt s)) * (sin (phi_m s) / cos (phi_m s))\<rparr>"
  by (simp add: Mechanize_earth_def TransportRateVector_def EarthRateVector_def
      GravityVector_def Mechanize_latitude_def Let_def)

lemma Mechanize_kept:
  "sL_m (Mechanize nt s wb fb dt) = sL_m (Mechanize_earth nt s)"
  "cL_m (Mechanize nt s wb fb dt) = cL_m (Mechanize_earth nt s)"
  "Re_m (Mechanize nt s wb fb dt) = Re_m (Mechanize_earth nt s)"
  "Rn_m (Mechanize nt s wb fb dt) = Rn_m (Mechanize_earth nt s)"
  "g0_m (Mechanize nt s wb fb dt) = g0_m (Mechanize_earth nt s)"
  "g_m (Mechanize nt s wb fb dt) = g_m (Mechanize_earth nt s)"
  "w_ie_n_m (Mechanize nt s wb fb dt) = w_ie_n_m (Mechanize_earth nt s)"
  "w_en_n_m (Mechanize nt s wb fb dt) = w_en_n_m (Mechanize_earth nt s)"
  "X1ME2_m (Mechanize nt s wb fb dt) = X1ME2_m s"
  "wR0sqRpMu_m (Mechanize nt s wb fb dt) = wR0sqRpMu_m s"
  by (simp_all add: Mechanize_def Let_def Mechanize_earth_kept)

lemma Mechanize_result:
  "q_b_l_m (Mechanize nt s wb fb dt) = Mechanize_q (Mechanize_earth nt s) wb dt"
  "C_b_l_m (Mechanize nt s wb fb dt) = quat2dcm nt (Mechanize_q (Mechanize_earth nt s) wb dt)"
  "vn_m (Mechanize nt s wb fb dt) = vn_m s + x0 (Mechanize_dv (Mechanize_earth nt s) fb dt)"
  "ve_m (Mechanize nt s wb fb dt) = ve_m s + x1 (Mechanize_dv (Mechanize_earth nt s) fb dt)"
  "vd_m (Mechanize nt s wb fb dt) = vd_m s + x2 (Mechanize_dv (Mechanize_earth nt s) fb dt)"
  "phi_m (Mechanize nt s wb fb dt) =
     phi_m s + (vn_m s + 0.5 * x0 (Mechanize_dv (Mechanize_earth nt s) fb dt)) /
               Hn_m (Mechanize_earth nt s) * dt"
  "lam_m (Mechanize nt s wb fb dt) =
     lam_m s + (ve_m s + 0.5 * x1 (Mechanize_dv (Mechanize_earth nt s) fb dt)) /
               (He_m (Mechanize_earth nt s) * cos (phi_m s)) * dt"
  "h_m (Mechanize nt s wb fb dt) =
     h_m s - (vd_m s + 0.5 * x2 (Mechanize_dv (Mechanize_earth nt s) fb dt)) * dt"
  by (simp_all add: Mechanize_def Let_def Mechanize_earth_kept Mechanize_earth_latitude)

section \<open>The quaternion update\<close>

lemma norm4_sq: "(norm4 a)\<^sup>2 = y0 a * y0 a + y1 a * y1 a + y2 a * y2 a + y3 a * y3 a"
  by (simp add: norm4_def)

lemma norm3_sq: "(norm3 a)\<^sup>2 = x0 a * x0 a + x1 a * x1 a + x2 a * x2 a"
  by (simp add: norm3_def)

lemma norm4_nonneg: "0 \<le> norm4 a"
  by (simp add: norm4_def)

lemma norm3_nonneg: "0 \<le> norm3 a"
  by (simp add: norm3_def)

lemma norm4_eq_0_iff: "norm4 a = 0 \<longleftrightarrow> a = Zero4"
proof -
  have "(y0 a * y0 a + y1 a * y1 a) + (y2 a * y2 a + y3 a * y3 a) = 0 \<longleftrightarrow>
        y0 a * y0 a + y1 a * y1 a = 0 \<and> y2 a * y2 a + y3 a * y3 a = 0"
    by (rule add_nonneg_eq_0_iff) simp_all
  then have "y0 a * y0 a + y1 a * y1 a + y2 a * y2 a + y3 a * y3 a = 0 \<longleftrightarrow>
        y0 a = 0 \<and> y1 a = 0 \<and> y2 a = 0 \<and> y3 a = 0"
    by (simp add: add.assoc)
  then show ?thesis
    by (cases a) (simp add: norm4_def Zero4_def)
qed

lemma norm4_mul4_qdot:
  "(norm4 (mul4 (qdot c p) q))\<^sup>2 = (c * c + (norm3 p)\<^sup>2) * (norm4 q)\<^sup>2"
  unfolding norm4_sq norm3_sq
  by (simp add: mul4_def qdot_def dot4_def algebra_simps)

lemma norm4_div4_self:
  assumes "norm4 a \<noteq> 0"
  shows "norm4 (div4 a (norm4 a)) = 1"
proof -
  let ?n = "norm4 a"
  have "(norm4 (div4 a ?n))\<^sup>2 =
        (y0 a * y0 a + y1 a * y1 a + y2 a * y2 a + y3 a * y3 a) / (?n)\<^sup>2"
    unfolding norm4_sq [of "div4 a ?n"]
    by (simp add: div4_def power2_eq_square add_divide_distrib)
  also have "\<dots> = 1"
    using assms by (simp add: norm4_sq [symmetric])
  finally have "(norm4 (div4 a ?n))\<^sup>2 = 1" .
  then show ?thesis
    using norm4_nonneg [of "div4 a ?n"] by (simp add: power2_eq_1_iff)
qed

lemma cos_small_pos:
  fixes x :: real
  assumes "0 \<le> x" "x < 1 / 10 ^ 5"
  shows "0 < cos x"
proof (rule cos_gt_zero_pi)
  show "- (pi / 2) < x"
    using assms pi_gt_zero by linarith
  show "x < pi / 2"
    using assms pi_ge_two by simp
qed

lemma Mechanize_gamma_nonneg: "0 \<le> Mechanize_gamma e wb dt"
  by (simp add: Mechanize_gamma_def norm3_nonneg)

lemma norm3_scale3: "(norm3 (scale3 a k))\<^sup>2 = k\<^sup>2 * (norm3 a)\<^sup>2"
  unfolding norm3_sq by (simp add: scale3_def power2_eq_square algebra_simps)

lemma qdot_update_regular:
  "0 < cos (Mechanize_gamma e wb dt) * cos (Mechanize_gamma e wb dt) +
       (norm3 (Mechanize_psi_scaled e wb dt))\<^sup>2"
proof (cases "Mechanize_gamma e wb dt < 1 / 10 ^ 5")
  case True
  then have "0 < cos (Mechanize_gamma e wb dt)"
    using Mechanize_gamma_nonneg by (intro cos_small_pos)
  then have "0 < cos (Mechanize_gamma e wb dt) * cos (Mechanize_gamma e wb dt)"
    by simp
  moreover have "0 \<le> (norm3 (Mechanize_psi_scaled e wb dt))\<^sup>2"
    by simp
  ultimately show ?thesis
    by linarith
next
  case False
  let ?g = "Mechanize_gamma e wb dt"
  have g: "0 < ?g"
    using False by simp
  have n: "norm3 (Mechanize_psi e wb dt) = 2 * ?g"
    by (simp add: Mechanize_gamma_def)
  have "(norm3 (Mechanize_psi_scaled e wb dt))\<^sup>2 = (0.5 * sin ?g / ?g)\<^sup>2 * (2 * ?g)\<^sup>2"
    using False by (simp only: Mechanize_psi_scaled_def Let_def if_False norm3_scale3 n)
  also have "\<dots> = (sin ?g)\<^sup>2"
    using g by (simp add: power2_eq_square)
  finally have "cos ?g * cos ?g + (norm3 (Mechanize_psi_scaled e wb dt))\<^sup>2 = 1"
    by (simp add: power2_eq_square)
  then show ?thesis
    by simp
qed

lemma Mechanize_q_raw_nonzero:
  assumes "q_b_l_m e \<noteq> Zero4"
  shows "norm4 (Mechanize_q_raw e wb dt) \<noteq> 0"
proof
  assume "norm4 (Mechanize_q_raw e wb dt) = 0"
  then have "(norm4 (Mechanize_q_raw e wb dt))\<^sup>2 = 0"
    by simp
  then have "(cos (Mechanize_gamma e wb dt) * cos (Mechanize_gamma e wb dt) +
       (norm3 (Mechanize_psi_scaled e wb dt))\<^sup>2) * (norm4 (q_b_l_m e))\<^sup>2 = 0"
    by (simp only: Mechanize_q_raw_def norm4_mul4_qdot)
  then have "norm4 (q_b_l_m e) = 0"
    using qdot_update_regular [of e wb dt] by simp
  then show False
    using assms by (simp add: norm4_eq_0_iff)
qed

lemma Mechanize_q_unit:
  assumes "q_b_l_m e \<noteq> Zero4"
  shows "norm4 (Mechanize_q e wb dt) = 1"
  unfolding Mechanize_q_def Let_def
  by (rule norm4_div4_self) (rule Mechanize_q_raw_nonzero [OF assms])

lemma Mechanize_q_zero:
  assumes "q_b_l_m e = Zero4"
  shows "Mechanize_q_raw e wb dt = Zero4" "Mechanize_q e wb dt = Zero4"
  using assms
  by (simp_all add: Mechanize_q_def Mechanize_q_raw_def Let_def mul4_def dot4_def Zero4_def div4_def)

section \<open>Attitude: the quaternion and its matrix\<close>

lemma sample_ellipsoid: "wgs84_ellipsoid sample_navtools"
  by (simp add: wgs84_ellipsoid_def sample_navtools_def)

lemma level_object_fields:
  "phi_m level_object = 0" "lam_m level_object = 0" "h_m level_object = 0"
  "vn_m level_object = 0" "ve_m level_object = 0" "vd_m level_object = 0"
  "q_b_l_m level_object = \<lparr>y0 = 1, y1 = 0, y2 = 0, y3 = 0\<rparr>"
  "C_b_l_m level_object = Identity3"
  "X1ME2_m level_object = 1 - WGS84_E2 sample_navtools"
  "g_m level_object = Zero3"
  "w_ie_n_m level_object = Zero3"
  by (simp_all add: level_object_def Strapdown_init_def Let_def sample_navtools_def
      sample_euler2quat_def sample_quat2dcm_def Identity3_def zero_storage_def)

lemma unset_object_fields:
  "phi_m unset_object = 0" "h_m unset_object = 0"
  "q_b_l_m unset_object = Zero4"
  "X1ME2_m unset_object = 1 - WGS84_E2 sample_navtools"
  by (simp_all add: unset_object_def Strapdown_default_def zero_storage_def)


lemma Mechanize_q_raw_zero_iff:
  "norm4 (Mechanize_q_raw (Mechanize_earth nt s) wb dt) = 0 \<longleftrightarrow> q_b_l_m s = Zero4"
proof
  assume "norm4 (Mechanize_q_raw (Mechanize_earth nt s) wb dt) = 0"
  then show "q_b_l_m s = Zero4"
    using Mechanize_q_raw_nonzero [of "Mechanize_earth nt s" wb dt]
    by (auto simp add: Mechanize_earth_kept)
next
  assume "q_b_l_m s = Zero4"
  then have "Mechanize_q_raw (Mechanize_earth nt s) wb dt = Zero4"
    by (intro Mechanize_q_zero) (simp add: Mechanize_earth_kept)
  then show "norm4 (Mechanize_q_raw (Mechanize_earth nt s) wb dt) = 0"
    by (simp add: norm4_eq_0_iff)
qed


lemma stale_object_not_synchronised: "\<not> pair_synchronised sample_navtools stale_object"
  by (simp add: pair_synchronised_def stale_object_def level_object_fields sample_navtools_def
      sample_quat2dcm_def sample_dcm2quat_def Let_def Zero3_def)




section \<open>The ellipsoid\<close>

lemma ellipsoid_t_pos:
  assumes "wgs84_ellipsoid nt"
  shows "0 < 1 - WGS84_E2 nt * (sin x * sin x)"
proof -
  have "sin x * sin x \<le> 1"
    using sin_squared_eq [of x] zero_le_power2 [of "cos x"] by (simp add: power2_eq_square)
  moreover have "0 \<le> sin x * sin x"
    by simp
  ultimately have "WGS84_E2 nt * (sin x * sin x) \<le> WGS84_E2 nt * 1"
    using assms by (intro mult_left_mono) (simp_all add: wgs84_ellipsoid_def)
  then show ?thesis
    using assms by (simp add: wgs84_ellipsoid_def)
qed

section \<open>Constructed objects and the ellipsoid\<close>

lemma reachable_constants:
  assumes "reachable nt s"
  shows "X1ME2_m s = 1 - WGS84_E2 nt \<and>
         wR0sqRpMu_m s =
           WGS84_OMEGA nt * WGS84_OMEGA nt * WGS84_R0 nt * WGS84_R0 nt * WGS84_RP nt / WGS84_MU nt \<and>
         x1 (g_m s) = 0 \<and> x1 (w_ie_n_m s) = 0"
  using assms
proof (induction rule: reachable.induct)
  case (reach_default u)
  show ?case by (simp add: Strapdown_default_def Zero3_def)
next
  case (reach_init u lat lon alt veln vele veld roll pitch yaw)
  show ?case by (simp add: Strapdown_init_def Let_def Zero3_def)
next
  case (reach_SetPosition s lat lon alt)
  then show ?case by (simp add: SetPosition_def)
next
  case (reach_SetVelocity s veln vele veld)
  then show ?case by (simp add: SetVelocity_def)
next
  case (reach_SetAttitude s roll pitch yaw)
  then show ?case by (simp add: SetAttitude_def Let_def)
next
  case (reach_SetAttitude_dcm s C)
  then show ?case by (simp add: SetAttitude_dcm_def)
next
  case (reach_Mechanize s wb fb dt)
  then show ?case
    by (simp add: Mechanize_kept Mechanize_earth_g Mechanize_earth_w_ie)
qed

lemma curvature_power:
  fixes t :: real
  assumes "0 < t"
  shows "t * t / sqrt t = t powr (3 / 2)"
proof -
  have "t powr (3 / 2) = t powr (1 + 1 / 2)"
    by simp
  also have "\<dots> = t powr 1 * t powr (1 / 2)"
    by (rule powr_add)
  also have "\<dots> = t * sqrt t"
    using assms by (simp add: powr_half_sqrt)
  finally have "t powr (3 / 2) = t * sqrt t" .
  moreover have "t * t / sqrt t = t * sqrt t"
    using assms by (simp add: field_simps)
  ultimately show ?thesis
    by simp
qed

section \<open>Velocity and position\<close>

lemma Mechanize_dv_components:
  "x0 (Mechanize_dv e fb dt) =
     (dot3 (r0 (C_b_l_m e)) fb + x0 (g_m e) -
        (x1 (Mechanize_we e) * vd_m e - x2 (Mechanize_we e) * ve_m e)) * dt"
  "x1 (Mechanize_dv e fb dt) =
     (dot3 (r1 (C_b_l_m e)) fb + x1 (g_m e) -
        (x0 (Mechanize_we e) * vd_m e - x2 (Mechanize_we e) * vn_m e)) * dt"
  "x2 (Mechanize_dv e fb dt) =
     (dot3 (r2 (C_b_l_m e)) fb + x2 (g_m e) -
        (x0 (Mechanize_we e) * ve_m e - x1 (Mechanize_we e) * vn_m e)) * dt"
  by (simp_all add: Mechanize_dv_def Let_def mul3_def)

text \<open>
  The velocity delta of a call, as lines 133-136 compute it: the specific force rotated by the
  matrix that the object held before the call, plus gravity, minus three terms in \<open>we\<close> and the
  old velocity, times \<open>dt\<close>.  The call ends with the velocity advanced by that delta and with
  the matrix of the new quaternion.
\<close>

lemma velocity_delta_as_written:
  "let e = Mechanize_earth nt s;
       s' = Mechanize nt s wb fb dt;
       fn = mul3 (C_b_l_m s) fb;
       g = g_m e;
       we = add3 (w_ie_n_m e) (scale3 (w_en_n_m e) 2);
       dv_n = (x0 fn + x0 g - (x1 we * vd_m s - x2 we * ve_m s)) * dt;
       dv_e = (x1 fn + x1 g - (x0 we * vd_m s - x2 we * vn_m s)) * dt;
       dv_d = (x2 fn + x2 g - (x0 we * ve_m s - x1 we * vn_m s)) * dt
   in Mechanize_dv e fb dt = \<lparr>x0 = dv_n, x1 = dv_e, x2 = dv_d\<rparr> \<and>
      vn_m s' = vn_m s + dv_n \<and>
      ve_m s' = ve_m s + dv_e \<and>
      vd_m s' = vd_m s + dv_d \<and>
      C_b_l_m s' = quat2dcm nt (q_b_l_m s')"
  by (simp add: Let_def Mechanize_result Mechanize_dv_def Mechanize_we_def Mechanize_earth_kept)

text \<open>
  Against the vector product of \<open>we\<close> and the velocity: the north and the down delta subtract
  their component of it, the east delta adds its component.
\<close>

lemma Mechanize_dv_cross:
  "let e = Mechanize_earth nt s;
       fn = mul3 (C_b_l_m s) fb;
       c = cross3 (Mechanize_we e) \<lparr>x0 = vn_m s, x1 = ve_m s, x2 = vd_m s\<rparr>
   in Mechanize_dv e fb dt =
        \<lparr>x0 = (x0 fn + x0 (g_m e) - x0 c) * dt,
         x1 = (x1 fn + x1 (g_m e) + x1 c) * dt,
         x2 = (x2 fn + x2 (g_m e) - x2 c) * dt\<rparr>"
  by (simp add: Let_def Mechanize_dv_def cross3_def Mechanize_earth_kept algebra_simps)

text \<open>
  C4.  On the WGS-84 ellipsoid, for an object made by a constructor, a call advances the
  position by the trapezoidal rule, with the radii and the cosine of the latitude of the
  state the call starts from.
\<close>

theorem position_trapezoidal:
  assumes "wgs84_ellipsoid nt" and "reachable nt s"
  shows
  "let s' = Mechanize nt s wb fb dt;
       t = 1 - WGS84_E2 nt * (sin (phi_m s))\<^sup>2;
       Re = WGS84_R0 nt / sqrt t;
       Rn = WGS84_R0 nt * (1 - WGS84_E2 nt) / t powr (3 / 2);
       dv_n = vn_m s' - vn_m s;
       dv_e = ve_m s' - ve_m s;
       dv_d = vd_m s' - vd_m s
   in phi_m s' = phi_m s + (vn_m s + 0.5 * dv_n) / (Rn + h_m s) * dt \<and>
      lam_m s' = lam_m s + (ve_m s + 0.5 * dv_e) / ((Re + h_m s) * cos (phi_m s)) * dt \<and>
      h_m s' = h_m s - (vd_m s + 0.5 * dv_d) * dt \<and>
      Re_m s' = Re \<and> Rn_m s' = Rn"
proof -
  let ?t = "1 - WGS84_E2 nt * (sin (phi_m s) * sin (phi_m s))"
  have t: "0 < ?t"
    by (rule ellipsoid_t_pos [OF assms(1)])
  have X: "X1ME2_m s = 1 - WGS84_E2 nt"
    using reachable_constants [OF assms(2)] by simp
  have Rn: "Rn_m (Mechanize_earth nt s) = WGS84_R0 nt * (1 - WGS84_E2 nt) / ?t powr (3 / 2)"
    by (simp only: Mechanize_earth_latitude(6) X curvature_power [OF t])
  have Re: "Re_m (Mechanize_earth nt s) = WGS84_R0 nt / sqrt ?t"
    by (simp only: Mechanize_earth_latitude(5))
  show ?thesis
    unfolding Let_def power2_eq_square
    by (simp add: Mechanize_result Mechanize_kept Mechanize_earth_latitude(7,8) Rn Re)
qed

section \<open>The level object\<close>

lemma level_reachable: "reachable sample_navtools level_object"
  unfolding level_object_def by (rule reach_init)

lemma sample_constants:
  "WGS84_E2 sample_navtools = 0.00669437999014"
  "WGS84_R0 sample_navtools = 6378137"
  "WGS84_OMEGA sample_navtools = 7.2921151467 / 10 ^ 5"
  by (simp_all add: sample_navtools_def)

lemma level_earth:
  "Re_m (Mechanize_earth sample_navtools level_object) = 6378137"
  "Rn_m (Mechanize_earth sample_navtools level_object) = 6378137 * (1 - 0.00669437999014)"
  "g_m (Mechanize_earth sample_navtools level_object) = \<lparr>x0 = 0, x1 = 0, x2 = 9.7803253359\<rparr>"
  "w_ie_n_m (Mechanize_earth sample_navtools level_object) = \<lparr>x0 = 7.2921151467 / 10 ^ 5, x1 = 0, x2 = 0\<rparr>"
  "w_en_n_m (Mechanize_earth sample_navtools level_object) = Zero3"
  by (simp_all add: Mechanize_earth_latitude Mechanize_earth_g Mechanize_earth_w_ie
      Mechanize_earth_w_en level_object_fields sample_constants Zero3_def)

lemma level_dv:
  "Mechanize_dv (Mechanize_earth sample_navtools level_object) level_force dt = Zero3"
  by (simp add: Mechanize_dv_def Let_def Mechanize_we_def level_earth Mechanize_earth_kept
      level_object_fields level_force_def Identity3_def mul3_def dot3_def add3_def scale3_def
      Zero3_def)

theorem position_trapezoidal_witness:
  "phi_m (Mechanize sample_navtools level_object Zero3 level_force (1 / 100)) = 0 \<and>
   lam_m (Mechanize sample_navtools level_object Zero3 level_force (1 / 100)) = 0 \<and>
   h_m (Mechanize sample_navtools level_object Zero3 level_force (1 / 100)) = 0 \<and>
   Re_m (Mechanize sample_navtools level_object Zero3 level_force (1 / 100)) = 6378137"
  using position_trapezoidal [OF sample_ellipsoid level_reachable, of Zero3 level_force "1 / 100"]
  by (simp add: Let_def Mechanize_result level_dv level_object_fields Zero3_def
      sample_constants)

section \<open>The Coriolis term of the east velocity\<close>

lemma sinking_object_fields:
  "phi_m sinking_object = 0" "h_m sinking_object = 0"
  "vn_m sinking_object = 0" "ve_m sinking_object = 0" "vd_m sinking_object = 1"
  "C_b_l_m sinking_object = Identity3"
  "g_m sinking_object = Zero3"
  "w_ie_n_m sinking_object = Zero3"
  by (simp_all add: sinking_object_def Strapdown_init_def Let_def sample_navtools_def
      sample_euler2quat_def sample_quat2dcm_def Identity3_def zero_storage_def)

lemma sinking_earth:
  "g_m (Mechanize_earth sample_navtools sinking_object) = \<lparr>x0 = 0, x1 = 0, x2 = 9.7803253359\<rparr>"
  "Mechanize_we (Mechanize_earth sample_navtools sinking_object) =
     \<lparr>x0 = 7.2921151467 / 10 ^ 5, x1 = 0, x2 = 0\<rparr>"
  by (simp_all add: Mechanize_we_def Mechanize_earth_latitude Mechanize_earth_g
      Mechanize_earth_w_ie Mechanize_earth_w_en sinking_object_fields sample_constants
      Zero3_def add3_def scale3_def)

text \<open>
  C2, at an object that sinks at one metre per second on the equator, level, with the
  specific force of rest, for a step of a hundredth of a second.  The Coriolis term, the
  vector product of \<open>we\<close> and the velocity, points west: its east component is \<open>-\<Omega>\<close>.
  Subtracting it, as the north and the down delta do with their components, gives the east
  velocity \<open>\<Omega> / 100\<close>; line 135 gives \<open>- \<Omega> / 100\<close>, because the term it subtracts is
  \<^verbatim>\<open>we(0) * vd_ - we(2) * vn_\<close>, the east component with the opposite sign.
\<close>

theorem east_coriolis_term_added:
  "let s = sinking_object;
       e = Mechanize_earth sample_navtools s;
       s' = Mechanize sample_navtools s Zero3 level_force (1 / 100);
       fn = mul3 (C_b_l_m s) level_force;
       c = cross3 (Mechanize_we e) \<lparr>x0 = vn_m s, x1 = ve_m s, x2 = vd_m s\<rparr>
   in c = \<lparr>x0 = 0, x1 = - (7.2921151467 / 10 ^ 5), x2 = 0\<rparr> \<and>
      vn_m s' = vn_m s + (x0 fn + x0 (g_m e) - x0 c) * (1 / 100) \<and>
      vd_m s' = vd_m s + (x2 fn + x2 (g_m e) - x2 c) * (1 / 100) \<and>
      ve_m s + (x1 fn + x1 (g_m e) - x1 c) * (1 / 100) = 7.2921151467 / 10 ^ 7 \<and>
      ve_m s' = - (7.2921151467 / 10 ^ 7) \<and>
      ve_m s' \<noteq> ve_m s + (x1 fn + x1 (g_m e) - x1 c) * (1 / 100)"
  by (simp add: Let_def Mechanize_result Mechanize_dv_def Mechanize_earth_kept sinking_earth
      sinking_object_fields cross3_def level_force_def Identity3_def mul3_def dot3_def Zero3_def)

section \<open>Earth model vectors\<close>

text \<open>
  C5.  The gravity, Earth-rate and transport-rate vectors that a call uses, and leaves in
  the members, are computed from the position and the velocity that the object held before
  the call; the Coriolis terms of the velocity deltas use the Earth rate plus twice the
  transport rate.
\<close>

theorem earth_vectors_from_old_state:
  "let s' = Mechanize nt s wb fb dt;
       t = 1 - WGS84_E2 nt * (sin (phi_m s) * sin (phi_m s));
       Re = WGS84_R0 nt / sqrt t;
       Rn = WGS84_R0 nt * X1ME2_m s / (t * t / sqrt t);
       g0 = 9.7803253359 * ((1 + 0.001931853 * (sin (phi_m s) * sin (phi_m s))) / sqrt t);
       we = add3 (w_ie_n_m s') (scale3 (w_en_n_m s') 2);
       fn = mul3 (C_b_l_m s) fb
   in w_en_n_m s' =
        \<lparr>x0 = ve_m s / (Re + h_m s),
         x1 = - vn_m s / (Rn + h_m s),
         x2 = - ve_m s * tan (phi_m s) / (Re + h_m s)\<rparr> \<and>
      w_ie_n_m s' =
        (w_ie_n_m s)\<lparr>x0 := WGS84_OMEGA nt * cos (phi_m s), x2 := WGS84_OMEGA nt * sin (phi_m s)\<rparr> \<and>
      g_m s' =
        (g_m s)\<lparr>x0 := - (8.08 / 10 ^ 9) * h_m s * sin (2 * phi_m s),
                x2 := g0 * (1 - (2 * h_m s / WGS84_R0 nt) *
                         (1 + WGS84_F nt * (1 - 2 * (sin (phi_m s) * sin (phi_m s))) +
                          wR0sqRpMu_m s) +
                       3 * (h_m s / WGS84_R0 nt * (h_m s / WGS84_R0 nt)))\<rparr> \<and>
      vn_m s' = vn_m s + (x0 fn + x0 (g_m s') - (x1 we * vd_m s - x2 we * ve_m s)) * dt \<and>
      ve_m s' = ve_m s + (x1 fn + x1 (g_m s') - (x0 we * vd_m s - x2 we * vn_m s)) * dt \<and>
      vd_m s' = vd_m s + (x2 fn + x2 (g_m s') - (x0 we * ve_m s - x1 we * vn_m s)) * dt"
proof -
  have w_en: "w_en_n_m (Mechanize nt s wb fb dt) =
      \<lparr>x0 = ve_m s / (Re_m (Mechanize_earth nt s) + h_m s),
       x1 = - vn_m s / (Rn_m (Mechanize_earth nt s) + h_m s),
       x2 = - ve_m s * tan (phi_m s) / (Re_m (Mechanize_earth nt s) + h_m s)\<rparr>"
    by (simp add: Mechanize_kept Mechanize_earth_w_en Mechanize_earth_latitude(7,8) tan_def)
  have v: "vn_m (Mechanize nt s wb fb dt) = vn_m s +
        (x0 (mul3 (C_b_l_m s) fb) + x0 (g_m (Mechanize_earth nt s)) -
         (x1 (Mechanize_we (Mechanize_earth nt s)) * vd_m s -
          x2 (Mechanize_we (Mechanize_earth nt s)) * ve_m s)) * dt"
      "ve_m (Mechanize nt s wb fb dt) = ve_m s +
        (x1 (mul3 (C_b_l_m s) fb) + x1 (g_m (Mechanize_earth nt s)) -
         (x0 (Mechanize_we (Mechanize_earth nt s)) * vd_m s -
          x2 (Mechanize_we (Mechanize_earth nt s)) * vn_m s)) * dt"
      "vd_m (Mechanize nt s wb fb dt) = vd_m s +
        (x2 (mul3 (C_b_l_m s) fb) + x2 (g_m (Mechanize_earth nt s)) -
         (x0 (Mechanize_we (Mechanize_earth nt s)) * ve_m s -
          x1 (Mechanize_we (Mechanize_earth nt s)) * vn_m s)) * dt"
    by (simp_all add: Mechanize_result Mechanize_dv_def Let_def Mechanize_earth_kept)
  show ?thesis
    unfolding Let_def
    apply (intro conjI)
         apply (simp only: w_en Mechanize_earth_latitude(5,6))
        apply (simp only: Mechanize_kept Mechanize_earth_w_ie)
       apply (simp only: Mechanize_kept Mechanize_earth_g Mechanize_earth_latitude(9))
      apply (simp add: v Mechanize_kept Mechanize_we_def)
     apply (simp add: v Mechanize_kept Mechanize_we_def)
    apply (simp add: v Mechanize_kept Mechanize_we_def)
    done
qed

text \<open>
  C7.  For an object made by a constructor, \<^verbatim>\<open>GravityVector\<close> leaves a gravity vector whose
  east component is zero, whose north component is \<open>-8.08e-9 * h * sin (2 * \<phi>)\<close>, zero on
  the ellipsoid, and whose down component is the member \<^verbatim>\<open>g0_\<close> times a factor of latitude
  and altitude.  Inside \<^verbatim>\<open>Mechanize\<close>, which has just set \<^verbatim>\<open>g0_\<close> and \<^verbatim>\<open>sLsq_\<close> from the
  latitude, this is the normal gravity at that latitude times the factor.
\<close>

theorem gravity_vector_components:
  assumes "reachable nt s"
  shows
  "let g = g_m (GravityVector nt s);
       factor = (\<lambda>sLsq. 1 - (2 * h_m s / WGS84_R0 nt) *
                   (1 + WGS84_F nt * (1 - 2 * sLsq) +
                    WGS84_OMEGA nt * WGS84_OMEGA nt * WGS84_R0 nt * WGS84_R0 nt * WGS84_RP nt /
                      WGS84_MU nt) +
                 3 * (h_m s / WGS84_R0 nt)\<^sup>2);
       g0 = 9.7803253359 * ((1 + 0.001931853 * (sin (phi_m s))\<^sup>2) /
              sqrt (1 - WGS84_E2 nt * (sin (phi_m s))\<^sup>2));
       g' = g_m (Mechanize nt s wb fb dt)
   in x1 g = 0 \<and>
      x0 g = - (8.08 / 10 ^ 9) * h_m s * sin (2 * phi_m s) \<and>
      (h_m s = 0 \<longrightarrow> x0 g = 0) \<and>
      x2 g = g0_m s * factor (sLsq_m s) \<and>
      g' = \<lparr>x0 = - (8.08 / 10 ^ 9) * h_m s * sin (2 * phi_m s),
            x1 = 0,
            x2 = g0 * factor ((sin (phi_m s))\<^sup>2)\<rparr>"
proof -
  note c = reachable_constants [OF assms]
  have g: "g_m (GravityVector nt s) =
      (g_m s)\<lparr>x0 := - (8.08 / 10 ^ 9) * h_m s * sin (2 * phi_m s),
              x2 := g0_m s * (1 - (2 * h_m s / WGS84_R0 nt) *
                      (1 + WGS84_F nt * (1 - 2 * sLsq_m s) + wR0sqRpMu_m s) +
                    3 * (h_m s / WGS84_R0 nt * (h_m s / WGS84_R0 nt)))\<rparr>"
    by (simp add: GravityVector_def Let_def)
  have g': "g_m (Mechanize nt s wb fb dt) =
      (g_m s)\<lparr>x0 := - (8.08 / 10 ^ 9) * h_m s * sin (2 * phi_m s),
              x2 := g0_m (Mechanize_earth nt s) *
                    (1 - (2 * h_m s / WGS84_R0 nt) *
                       (1 + WGS84_F nt * (1 - 2 * (sin (phi_m s) * sin (phi_m s))) + wR0sqRpMu_m s) +
                     3 * (h_m s / WGS84_R0 nt * (h_m s / WGS84_R0 nt)))\<rparr>"
    by (simp only: Mechanize_kept Mechanize_earth_g)
  have east: "g_m s = \<lparr>x0 = x0 (g_m s), x1 = 0, x2 = x2 (g_m s)\<rparr>"
    using c by (cases "g_m s") simp
  show ?thesis
    unfolding Let_def
  proof (intro conjI impI)
    show "x1 (g_m (GravityVector nt s)) = 0"
      using c by (simp add: g)
    show n: "x0 (g_m (GravityVector nt s)) = - (8.08 / 10 ^ 9) * h_m s * sin (2 * phi_m s)"
      by (simp add: g)
    show "x0 (g_m (GravityVector nt s)) = 0" if "h_m s = 0"
      using that by (simp add: n)
    show "x2 (g_m (GravityVector nt s)) =
        g0_m s * (1 - (2 * h_m s / WGS84_R0 nt) *
           (1 + WGS84_F nt * (1 - 2 * sLsq_m s) +
            WGS84_OMEGA nt * WGS84_OMEGA nt * WGS84_R0 nt * WGS84_R0 nt * WGS84_RP nt /
              WGS84_MU nt) +
           3 * (h_m s / WGS84_R0 nt)\<^sup>2)"
      using c by (simp add: g power2_eq_square)
    show "g_m (Mechanize nt s wb fb dt) =
        \<lparr>x0 = - (8.08 / 10 ^ 9) * h_m s * sin (2 * phi_m s),
         x1 = 0,
         x2 = 9.7803253359 * ((1 + 0.001931853 * (sin (phi_m s))\<^sup>2) /
                sqrt (1 - WGS84_E2 nt * (sin (phi_m s))\<^sup>2)) *
              (1 - (2 * h_m s / WGS84_R0 nt) *
                 (1 + WGS84_F nt * (1 - 2 * (sin (phi_m s))\<^sup>2) +
                  WGS84_OMEGA nt * WGS84_OMEGA nt * WGS84_R0 nt * WGS84_R0 nt * WGS84_RP nt /
                    WGS84_MU nt) +
               3 * (h_m s / WGS84_R0 nt)\<^sup>2)\<rparr>"
      using c by (subst g', subst east) (simp add: Mechanize_earth_latitude(9) power2_eq_square)
  qed
qed

theorem gravity_vector_components_witness:
  "g_m (Mechanize sample_navtools level_object Zero3 level_force (1 / 100)) =
     \<lparr>x0 = 0, x1 = 0, x2 = 9.7803253359\<rparr>"
  using gravity_vector_components [OF level_reachable, of Zero3 level_force "1 / 100"]
  by (simp add: Let_def level_object_fields)

section \<open>Static equilibrium\<close>

lemma Mechanize_static_step:
  assumes "vn_m s = 0" "ve_m s = 0" "vd_m s = 0"
    and "Mechanize_dv (Mechanize_earth nt s) fb dt = Zero3"
  shows "phi_m (Mechanize nt s wb fb dt) = phi_m s"
    and "lam_m (Mechanize nt s wb fb dt) = lam_m s"
    and "h_m (Mechanize nt s wb fb dt) = h_m s"
    and "vn_m (Mechanize nt s wb fb dt) = 0"
    and "ve_m (Mechanize nt s wb fb dt) = 0"
    and "vd_m (Mechanize nt s wb fb dt) = 0"
  using assms by (simp_all add: Mechanize_result Zero3_def)

lemma sample_quat2dcm_rows:
  assumes "norm4 q = 1"
  shows "dot3 (r0 (sample_quat2dcm q)) (r2 (sample_quat2dcm q)) = 0"
    and "dot3 (r1 (sample_quat2dcm q)) (r2 (sample_quat2dcm q)) = 0"
    and "dot3 (r2 (sample_quat2dcm q)) (r2 (sample_quat2dcm q)) = 1"
proof -
  have n: "y0 q * y0 q + y1 q * y1 q + y2 q * y2 q + y3 q * y3 q = 1"
    using assms norm4_sq [of q] by simp
  show "dot3 (r0 (sample_quat2dcm q)) (r2 (sample_quat2dcm q)) = 0"
    by (simp add: sample_quat2dcm_def Let_def dot3_def algebra_simps)
  show "dot3 (r1 (sample_quat2dcm q)) (r2 (sample_quat2dcm q)) = 0"
    by (simp add: sample_quat2dcm_def Let_def dot3_def algebra_simps)
  have "dot3 (r2 (sample_quat2dcm q)) (r2 (sample_quat2dcm q)) =
        (y0 q * y0 q + y1 q * y1 q + y2 q * y2 q + y3 q * y3 q)\<^sup>2"
    by (simp add: sample_quat2dcm_def Let_def dot3_def power2_eq_square algebra_simps)
  then show "dot3 (r2 (sample_quat2dcm q)) (r2 (sample_quat2dcm q)) = 1"
    by (simp add: n)
qed

lemma rest_dv:
  assumes "phi_m s = 0" "h_m s = 0" "vn_m s = 0" "ve_m s = 0" "vd_m s = 0" "x1 (g_m s) = 0"
  shows "Mechanize_dv (Mechanize_earth sample_navtools s) fb dt =
     scale3 (add3 (mul3 (C_b_l_m s) fb) \<lparr>x0 = 0, x1 = 0, x2 = 9.7803253359\<rparr>) dt"
  using assms
  by (simp add: Mechanize_dv_def Let_def Mechanize_earth_kept Mechanize_earth_g
      Mechanize_earth_latitude(9) scale3_def add3_def)

lemma level_after_one_fields:
  "phi_m level_after_one = 0" "lam_m level_after_one = 0" "h_m level_after_one = 0"
  "vn_m level_after_one = 0" "ve_m level_after_one = 0" "vd_m level_after_one = 0"
  "x1 (g_m level_after_one) = 0"
  "norm4 (q_b_l_m level_after_one) = 1"
  "C_b_l_m level_after_one = sample_quat2dcm (q_b_l_m level_after_one)"
proof -
  note step = Mechanize_static_step [of level_object sample_navtools level_force "1 / 100" Zero3,
      OF level_object_fields(4,5,6) level_dv]
  show "phi_m level_after_one = 0" "lam_m level_after_one = 0" "h_m level_after_one = 0"
    "vn_m level_after_one = 0" "ve_m level_after_one = 0" "vd_m level_after_one = 0"
    using step by (simp_all add: level_after_one_def level_object_fields)
  show "x1 (g_m level_after_one) = 0"
    by (simp add: level_after_one_def Mechanize_kept level_earth)
  have "q_b_l_m (Mechanize_earth sample_navtools level_object) \<noteq> Zero4"
    by (simp add: Mechanize_earth_kept level_object_fields Zero4_def)
  then have "norm4 (Mechanize_q (Mechanize_earth sample_navtools level_object) Zero3 (1 / 100)) = 1"
    by (rule Mechanize_q_unit)
  then show "norm4 (q_b_l_m level_after_one) = 1"
    by (simp only: level_after_one_def Mechanize_result)
  show "C_b_l_m level_after_one = sample_quat2dcm (q_b_l_m level_after_one)"
    by (simp add: level_after_one_def Mechanize_result sample_navtools_def)
qed

lemma turned_dv:
  "Mechanize_dv (Mechanize_earth sample_navtools level_after_one) turned_force dt = Zero3"
proof -
  note rows = sample_quat2dcm_rows [OF level_after_one_fields(8)]
  have "mul3 (C_b_l_m level_after_one) turned_force = \<lparr>x0 = 0, x1 = 0, x2 = - 9.7803253359\<rparr>"
    using rows
    by (simp add: turned_force_def level_after_one_fields(9) mul3_def dot3_def scale3_def
        algebra_simps)
  then show ?thesis
    by (simp add: rest_dv [OF level_after_one_fields(1,3,4,5,6,7)] scale3_def add3_def Zero3_def)
qed

text \<open>
  C6.  From a state with zero velocity, a run of calls with zero angular rate whose specific
  forces make every velocity delta zero leaves latitude, longitude and altitude as they
  were, and the velocity zero.
\<close>

theorem static_equilibrium_fixed_point:
  assumes "vn_m s = 0" and "ve_m s = 0" and "vd_m s = 0"
    and "static_inputs nt s ins"
  shows "phi_m (Mechanize_all nt s ins) = phi_m s \<and>
         lam_m (Mechanize_all nt s ins) = lam_m s \<and>
         h_m (Mechanize_all nt s ins) = h_m s \<and>
         vn_m (Mechanize_all nt s ins) = vn_m s \<and>
         ve_m (Mechanize_all nt s ins) = ve_m s \<and>
         vd_m (Mechanize_all nt s ins) = vd_m s"
  using assms
proof (induction ins arbitrary: s)
  case Nil
  show ?case by simp
next
  case (Cons a ins)
  obtain wb fb dt where a: "a = (wb, fb, dt)"
    by (cases a) auto
  let ?s = "Mechanize nt s wb fb dt"
  have dv: "Mechanize_dv (Mechanize_earth nt s) fb dt = Zero3"
    and rest: "static_inputs nt ?s ins"
    using Cons.prems(4) by (auto simp add: a)
  note step = Mechanize_static_step [OF Cons.prems(1-3) dv, of wb]
  have "phi_m (Mechanize_all nt ?s ins) = phi_m ?s \<and>
        lam_m (Mechanize_all nt ?s ins) = lam_m ?s \<and>
        h_m (Mechanize_all nt ?s ins) = h_m ?s \<and>
        vn_m (Mechanize_all nt ?s ins) = vn_m ?s \<and>
        ve_m (Mechanize_all nt ?s ins) = ve_m ?s \<and>
        vd_m (Mechanize_all nt ?s ins) = vd_m ?s"
    by (rule Cons.IH) (simp_all add: step rest)
  then show ?case
    by (simp add: a step Cons.prems(1-3))
qed

theorem static_equilibrium_fixed_point_witness:
  "static_inputs sample_navtools level_object
     [(Zero3, level_force, 1 / 100), (Zero3, turned_force, 1 / 100)] \<and>
   phi_m (Mechanize_all sample_navtools level_object
     [(Zero3, level_force, 1 / 100), (Zero3, turned_force, 1 / 100)]) = 0 \<and>
   lam_m (Mechanize_all sample_navtools level_object
     [(Zero3, level_force, 1 / 100), (Zero3, turned_force, 1 / 100)]) = 0 \<and>
   h_m (Mechanize_all sample_navtools level_object
     [(Zero3, level_force, 1 / 100), (Zero3, turned_force, 1 / 100)]) = 0 \<and>
   vn_m (Mechanize_all sample_navtools level_object
     [(Zero3, level_force, 1 / 100), (Zero3, turned_force, 1 / 100)]) = 0 \<and>
   ve_m (Mechanize_all sample_navtools level_object
     [(Zero3, level_force, 1 / 100), (Zero3, turned_force, 1 / 100)]) = 0 \<and>
   vd_m (Mechanize_all sample_navtools level_object
     [(Zero3, level_force, 1 / 100), (Zero3, turned_force, 1 / 100)]) = 0"
proof -
  have inputs: "static_inputs sample_navtools level_object
      [(Zero3, level_force, 1 / 100), (Zero3, turned_force, 1 / 100)]"
    by (simp add: level_dv turned_dv flip: level_after_one_def)
  from static_equilibrium_fixed_point [OF level_object_fields(4,5,6) inputs] inputs
  show ?thesis
    by (simp only: level_object_fields simp_thms)
qed

section \<open>The two branches of the attitude update\<close>

lemma norm3_axis: "norm3 \<lparr>x0 = a, x1 = 0, x2 = 0\<rparr> = \<bar>a\<bar>"
  by (simp add: norm3_def)

text \<open>
  C3.  The rotation vector of a call is \<open>psi = (wb - C\<^sup>T (w_ie + w_en)) * dt\<close>, with the matrix
  the object held before the call and the Earth and transport rates of line 107-108, and
  \<open>gamma\<close> is half its norm.  From \<open>gamma = 1e-5\<close> on, \<open>psi\<close> is scaled by
  \<open>0.5 * sin gamma / gamma\<close>; below, by \<open>0.5\<close>.  In both cases the matrix \<open>qdot\<close>, built from
  \<open>cos gamma\<close> and the scaled vector, multiplies the old quaternion from the left, and the
  product is divided by its norm.
\<close>

theorem attitude_update_branches:
  "let e = Mechanize_earth nt s;
       psi = scale3 (sub3 wb (mul3 (transpose3 (C_b_l_m s)) (add3 (w_ie_n_m e) (w_en_n_m e)))) dt;
       gamma = 0.5 * norm3 psi;
       product = (\<lambda>k. mul4 (qdot (cos gamma) (scale3 psi k)) (q_b_l_m s));
       q' = q_b_l_m (Mechanize nt s wb fb dt)
   in Mechanize_psi e wb dt = psi \<and>
      Mechanize_gamma e wb dt = gamma \<and>
      (1 / 10 ^ 5 \<le> gamma \<longrightarrow>
         q' = div4 (product (0.5 * sin gamma / gamma)) (norm4 (product (0.5 * sin gamma / gamma)))) \<and>
      (gamma < 1 / 10 ^ 5 \<longrightarrow>
         q' = div4 (product 0.5) (norm4 (product 0.5)))"
  by (simp add: Let_def Mechanize_result Mechanize_q_def Mechanize_q_raw_def
      Mechanize_psi_scaled_def Mechanize_gamma_def Mechanize_psi_def Mechanize_earth_kept)

lemma level_psi:
  "Mechanize_psi (Mechanize_earth sample_navtools level_object) wb dt =
     \<lparr>x0 = (x0 wb - 7.2921151467 / 10 ^ 5) * dt, x1 = x1 wb * dt, x2 = x2 wb * dt\<rparr>"
  by (simp add: Mechanize_psi_def level_earth Mechanize_earth_kept level_object_fields
      Identity3_def transpose3_def mul3_def dot3_def add3_def sub3_def scale3_def Zero3_def)

lemma level_gamma_slow:
  "Mechanize_gamma (Mechanize_earth sample_navtools level_object) Zero3 (1 / 100) =
     7.2921151467 / (2 * 10 ^ 7)"
  by (simp add: Mechanize_gamma_def level_psi Zero3_def norm3_axis)

lemma level_gamma_fast:
  "Mechanize_gamma (Mechanize_earth sample_navtools level_object) roll_rate 1 =
     (1 - 7.2921151467 / 10 ^ 5) / 2"
  by (simp add: Mechanize_gamma_def level_psi roll_rate_def norm3_axis)

theorem attitude_update_branches_witness:
  "q_b_l_m (Mechanize sample_navtools level_object Zero3 level_force (1 / 100)) =
     (let c = cos (7.2921151467 / (2 * 10 ^ 7));
          p = - 7.2921151467 / (2 * 10 ^ 7);
          n = sqrt (c * c + p * p)
      in \<lparr>y0 = c / n, y1 = p / n, y2 = 0, y3 = 0\<rparr>) \<and>
   q_b_l_m (Mechanize sample_navtools level_object roll_rate level_force 1) =
     (let c = cos ((1 - 7.2921151467 / 10 ^ 5) / 2);
          p = sin ((1 - 7.2921151467 / 10 ^ 5) / 2);
          n = sqrt (c * c + p * p)
      in \<lparr>y0 = c / n, y1 = p / n, y2 = 0, y3 = 0\<rparr>)"
proof -
  note slow = attitude_update_branches [of sample_navtools level_object Zero3 "1 / 100" level_force]
  note fast = attitude_update_branches [of sample_navtools level_object roll_rate 1 level_force]
  have a: "q_b_l_m (Mechanize sample_navtools level_object Zero3 level_force (1 / 100)) =
     (let c = cos (7.2921151467 / (2 * 10 ^ 7));
          p = - 7.2921151467 / (2 * 10 ^ 7);
          n = sqrt (c * c + p * p)
      in \<lparr>y0 = c / n, y1 = p / n, y2 = 0, y3 = 0\<rparr>)"
    using slow
    by (simp add: Let_def level_earth Mechanize_earth_kept level_object_fields
        Identity3_def transpose3_def mul3_def dot3_def add3_def sub3_def scale3_def Zero3_def
        roll_rate_def norm3_axis mul4_def dot4_def qdot_def div4_def norm4_def)
  have b: "q_b_l_m (Mechanize sample_navtools level_object roll_rate level_force 1) =
     (let c = cos ((1 - 7.2921151467 / 10 ^ 5) / 2);
          p = sin ((1 - 7.2921151467 / 10 ^ 5) / 2);
          n = sqrt (c * c + p * p)
      in \<lparr>y0 = c / n, y1 = p / n, y2 = 0, y3 = 0\<rparr>)"
    using fast
    by (simp add: Let_def level_earth Mechanize_earth_kept level_object_fields
        Identity3_def transpose3_def mul3_def dot3_def add3_def sub3_def scale3_def Zero3_def
        roll_rate_def norm3_axis mul4_def dot4_def qdot_def div4_def norm4_def)
  from a b show ?thesis ..
qed

section \<open>Divisions\<close>

lemma double_norm4_Zero4: "double_norm4 Zero4 = 0"
  by (simp add: double_norm4_def double_square_def Zero4_def)

text \<open>Why the condition is on the computed norm: a quaternion can be too small for it.\<close>

lemma tiny_quaternion_underflows:
  "tiny_quaternion \<noteq> Zero4 \<and> norm4 tiny_quaternion \<noteq> 0 \<and> double_norm4 tiny_quaternion = 0"
proof -
  have t: "tiny_quaternion \<noteq> Zero4"
    by (simp add: tiny_quaternion_def Zero4_def)
  have "(2::real) ^ 1075 \<le> 10 ^ 400"
    by simp
  then have "(1 / (10::real) ^ 200) * (1 / 10 ^ 200) \<le> 1 / 2 ^ 1075"
    by (simp add: field_simps flip: power_add)
  then have "double_square (1 / 10 ^ 200) = 0"
    by (simp only: double_square_def if_True)
  then have "double_norm4 tiny_quaternion = 0"
    by (simp add: double_norm4_def tiny_quaternion_def double_square_def)
  with t show ?thesis
    by (simp add: norm4_eq_0_iff)
qed

text \<open>
  C9, as the code has it.  On the WGS-84 ellipsoid, for a state with \<open>cos \<phi> \<noteq> 0\<close>,
  \<open>Rn + h \<noteq> 0\<close> and \<open>Re + h \<noteq> 0\<close>, and for a call in which the norm that line 130 computes
  is not zero, no divisor of the call is zero.  In exact arithmetic that norm is not zero
  exactly when the quaternion before the call is not the zero vector.
\<close>

theorem Mechanize_divisors_nonzero:
  assumes "wgs84_ellipsoid nt"
    and "cos (phi_m s) \<noteq> 0"
    and "Rn_m (Mechanize_earth nt s) + h_m s \<noteq> 0"
    and "Re_m (Mechanize_earth nt s) + h_m s \<noteq> 0"
    and "nrm (Mechanize_q_raw (Mechanize_earth nt s) wb dt) \<noteq> 0"
  shows "(\<forall>d \<in> set (Mechanize_divisors nt nrm s wb dt). d \<noteq> 0) \<and>
         (norm4 (Mechanize_q_raw (Mechanize_earth nt s) wb dt) \<noteq> 0 \<longleftrightarrow> q_b_l_m s \<noteq> Zero4)"
proof -
  let ?e = "Mechanize_earth nt s"
  let ?t = "1 - WGS84_E2 nt * (sin (phi_m s) * sin (phi_m s))"
  have t: "0 < ?t"
    by (rule ellipsoid_t_pos [OF assms(1)])
  then have sqt: "sqrt ?t \<noteq> 0"
    by simp
  have tt: "?t * ?t / sqrt ?t \<noteq> 0"
    using t by simp
  have R0: "WGS84_R0 nt \<noteq> 0"
    using assms(1) by (simp add: wgs84_ellipsoid_def)
  have cL: "cL_m ?e \<noteq> 0"
    using assms(2) by (simp add: Mechanize_earth_latitude)
  have He: "He_m ?e \<noteq> 0"
    using assms(4) by (simp add: Mechanize_earth_latitude(7))
  have Hn: "Hn_m ?e \<noteq> 0"
    using assms(3) by (simp add: Mechanize_earth_latitude(8))
  have g: "Mechanize_gamma ?e wb dt \<noteq> 0" if "\<not> Mechanize_gamma ?e wb dt < 1 / 10 ^ 5"
    using that by auto
  have list: "\<forall>d \<in> set (Mechanize_divisors nt f s wb dt). d \<noteq> 0"
    if f: "f (Mechanize_q_raw ?e wb dt) \<noteq> 0" for f
  proof -
    have "set (Mechanize_divisors nt f s wb dt) \<subseteq>
        {cL_m ?e, sqrt ?t, ?t * ?t / sqrt ?t, WGS84_R0 nt, He_m ?e, Hn_m ?e,
         f (Mechanize_q_raw ?e wb dt), He_m ?e * cL_m ?e} \<union>
        (if Mechanize_gamma ?e wb dt < 1 / 10 ^ 5 then {} else {Mechanize_gamma ?e wb dt})"
      by (auto simp add: Mechanize_divisors_def Let_def Mechanize_earth_latitude)
    moreover have "\<forall>d \<in> {cL_m ?e, sqrt ?t, ?t * ?t / sqrt ?t, WGS84_R0 nt, He_m ?e, Hn_m ?e,
         f (Mechanize_q_raw ?e wb dt), He_m ?e * cL_m ?e} \<union>
        (if Mechanize_gamma ?e wb dt < 1 / 10 ^ 5 then {} else {Mechanize_gamma ?e wb dt}). d \<noteq> 0"
      using sqt tt R0 cL He Hn f g by auto
    ultimately show ?thesis
      by blast
  qed
  have "\<forall>d \<in> set (Mechanize_divisors nt nrm s wb dt). d \<noteq> 0"
    using assms(5) by (rule list [of nrm])
  then show ?thesis
    by (simp add: Mechanize_q_raw_zero_iff)
qed

lemma level_q_raw_earth_rate:
  "Mechanize_q_raw (Mechanize_earth sample_navtools level_object) earth_rate_body dt =
     \<lparr>y0 = 1, y1 = 0, y2 = 0, y3 = 0\<rparr>"
proof -
  have psi: "Mechanize_psi (Mechanize_earth sample_navtools level_object) earth_rate_body dt = Zero3"
    by (simp add: level_psi earth_rate_body_def Zero3_def)
  then have gamma: "Mechanize_gamma (Mechanize_earth sample_navtools level_object) earth_rate_body dt = 0"
    by (simp add: Mechanize_gamma_def norm3_def Zero3_def)
  show ?thesis
    by (simp add: Mechanize_q_raw_def Mechanize_psi_scaled_def Let_def psi gamma
        Mechanize_earth_kept level_object_fields qdot_def mul4_def dot4_def scale3_def Zero3_def)
qed

theorem Mechanize_divisors_nonzero_witness:
  "0 \<notin> set (Mechanize_divisors sample_navtools double_norm4 level_object earth_rate_body (1 / 100))"
proof -
  have "cos (phi_m level_object) \<noteq> 0"
    by (simp add: level_object_fields)
  moreover have "Rn_m (Mechanize_earth sample_navtools level_object) + h_m level_object \<noteq> 0"
    by (simp add: level_earth level_object_fields)
  moreover have "Re_m (Mechanize_earth sample_navtools level_object) + h_m level_object \<noteq> 0"
    by (simp add: level_earth level_object_fields)
  moreover have "double_norm4
      (Mechanize_q_raw (Mechanize_earth sample_navtools level_object) earth_rate_body (1 / 100)) \<noteq> 0"
    by (simp add: level_q_raw_earth_rate double_norm4_def double_square_def)
  ultimately show ?thesis
    using Mechanize_divisors_nonzero [OF sample_ellipsoid,
        of level_object double_norm4 earth_rate_body "1 / 100"]
    by blast
qed

text \<open>
  C9 as stated, with the conditions on latitude and altitude alone, fails: for the object
  whose attitude was never set they hold, the product of line 129 is the zero vector, and
  line 130 divides by its norm, zero.
\<close>

theorem division_by_zero_counterexample:
  "cos (phi_m unset_object) \<noteq> 0 \<and>
   Rn_m (Mechanize_earth sample_navtools unset_object) + h_m unset_object \<noteq> 0 \<and>
   Re_m (Mechanize_earth sample_navtools unset_object) + h_m unset_object \<noteq> 0 \<and>
   0 \<in> set (Mechanize_divisors sample_navtools double_norm4 unset_object Zero3 (1 / 100))"
proof (intro conjI)
  show "cos (phi_m unset_object) \<noteq> 0"
    by (simp add: unset_object_fields)
  show "Rn_m (Mechanize_earth sample_navtools unset_object) + h_m unset_object \<noteq> 0"
    by (simp add: Mechanize_earth_latitude unset_object_fields sample_navtools_def)
  show "Re_m (Mechanize_earth sample_navtools unset_object) + h_m unset_object \<noteq> 0"
    by (simp add: Mechanize_earth_latitude unset_object_fields sample_navtools_def)
  have "q_b_l_m (Mechanize_earth sample_navtools unset_object) = Zero4"
    by (simp add: Mechanize_earth_kept unset_object_fields)
  then have "double_norm4
      (Mechanize_q_raw (Mechanize_earth sample_navtools unset_object) Zero3 (1 / 100)) = 0"
    by (simp only: Mechanize_q_zero double_norm4_Zero4)
  then show "0 \<in> set (Mechanize_divisors sample_navtools double_norm4 unset_object Zero3 (1 / 100))"
    by (simp add: Mechanize_divisors_def Let_def)
qed

section \<open>The status of GaussNewton\<close>

lemma GaussNewton_iterate_status:
  "fst (GaussNewton_iterate ls ep k x P) =
     (\<exists>i<k. (\<forall>j\<le>i. usable_at ls ep x j) \<and> (\<forall>j<i. \<not> converged_at ls ep x j) \<and>
            converged_at ls ep x i)"
proof (induction k arbitrary: x P)
  case 0
  show ?case by simp
next
  case (Suc k)
  let ?x' = "add_update x (normal_equations ls x ep)"
  have shift_u: "usable_at ls ep x (Suc j) = usable_at ls ep ?x' j" for j
    by (simp add: usable_at_def)
  have shift_c: "converged_at ls ep x (Suc j) = converged_at ls ep ?x' j" for j
    by (simp add: converged_at_def)
  have u0: "usable_at ls ep x 0 = (\<not> ill_conditioned ls (information_matrix ls x ep))"
    by (simp add: usable_at_def)
  have c0: "converged_at ls ep x 0 =
      (update_norm (normal_equations ls x ep) < convergence_threshold ls)"
    by (simp add: converged_at_def)
  let ?R = "\<lambda>x k. \<exists>i<k. (\<forall>j\<le>i. usable_at ls ep x j) \<and> (\<forall>j<i. \<not> converged_at ls ep x j) \<and>
            converged_at ls ep x i"
  show ?case
  proof (cases "usable_at ls ep x 0")
    case False
    then have "fst (GaussNewton_iterate ls ep (Suc k) x P) = False"
      by (simp add: u0 Let_def)
    moreover have "\<not> ?R x (Suc k)"
      using False by auto
    ultimately show ?thesis by simp
  next
    case usable: True
    show ?thesis
    proof (cases "converged_at ls ep x 0")
      case True
      then have "fst (GaussNewton_iterate ls ep (Suc k) x P) = True"
        using usable by (simp add: u0 c0 Let_def)
      moreover have "?R x (Suc k)"
        using True usable by (intro exI [of _ 0]) simp
      ultimately show ?thesis by simp
    next
      case False
      then have "fst (GaussNewton_iterate ls ep (Suc k) x P) =
          fst (GaussNewton_iterate ls ep k ?x'
                 (covariance_of ls (information_matrix ls x ep)))"
        using usable by (simp add: u0 c0 Let_def)
      also have "\<dots> = ?R ?x' k"
        by (rule Suc.IH)
      also have "\<dots> = ?R x (Suc k)"
      proof
        assume "?R ?x' k"
        then obtain i where i: "i < k" "\<forall>j\<le>i. usable_at ls ep ?x' j"
          "\<forall>j<i. \<not> converged_at ls ep ?x' j" "converged_at ls ep ?x' i"
          by blast
        have "\<forall>j\<le>Suc i. usable_at ls ep x j"
        proof (intro allI impI)
          fix j assume "j \<le> Suc i"
          then show "usable_at ls ep x j"
            using i(2) usable by (cases j) (simp_all add: shift_u)
        qed
        moreover have "\<forall>j<Suc i. \<not> converged_at ls ep x j"
        proof (intro allI impI)
          fix j assume "j < Suc i"
          then show "\<not> converged_at ls ep x j"
            using i(3) False by (cases j) (simp_all add: shift_c)
        qed
        moreover have "converged_at ls ep x (Suc i)"
          using i(4) by (simp add: shift_c)
        ultimately show "?R x (Suc k)"
          using i(1) by (intro exI [of _ "Suc i"]) simp
      next
        assume "?R x (Suc k)"
        then obtain i where i: "i < Suc k" "\<forall>j\<le>i. usable_at ls ep x j"
          "\<forall>j<i. \<not> converged_at ls ep x j" "converged_at ls ep x i"
          by blast
        from i(4) False obtain i' where i': "i = Suc i'"
          by (cases i) auto
        have "\<forall>j\<le>i'. usable_at ls ep ?x' j"
          using i(2) by (auto simp add: i' shift_u [symmetric])
        moreover have "\<forall>j<i'. \<not> converged_at ls ep ?x' j"
          using i(3) by (auto simp add: i' shift_c [symmetric])
        moreover have "converged_at ls ep ?x' i'"
          using i(4) by (simp add: i' shift_c)
        ultimately show "?R ?x' k"
          using i(1) i' by (intro exI [of _ i']) simp
      qed
      finally show ?thesis .
    qed
  qed
qed

text \<open>
  C8.  \<^verbatim>\<open>GaussNewton\<close> always returns a status.  The status is true exactly when there are at
  least four satellites and, within the cap, some iteration computes an update below the
  threshold, no earlier update was below it, and the information matrix was usable at that
  iteration and at all before it.  So the status is false for fewer than four satellites, for
  an information matrix that is singular or ill-conditioned, and when the cap is reached
  without an update below the threshold.
\<close>

theorem GaussNewton_reports_failure:
  "let ep = \<lparr>sv_pos = svp, sv_vel = svv, psr = rho, psrdot = rhodot,
             psr_var = rho_var, psrdot_var = rhodot_var\<rparr>;
       status = fst (GaussNewton ls x P svp svv rho rhodot rho_var rhodot_var)
   in (status \<longleftrightarrow>
         4 \<le> length rho \<and>
         (\<exists>i<iteration_cap ls.
            (\<forall>j\<le>i. usable_at ls ep x j) \<and> (\<forall>j<i. \<not> converged_at ls ep x j) \<and>
            converged_at ls ep x i)) \<and>
      (length rho < 4 \<longrightarrow> \<not> status) \<and>
      (ill_conditioned ls (information_matrix ls x ep) \<longrightarrow> \<not> status) \<and>
      ((\<forall>i<iteration_cap ls. \<not> converged_at ls ep x i) \<longrightarrow> \<not> status)"
proof -
  let ?ep = "\<lparr>sv_pos = svp, sv_vel = svv, psr = rho, psrdot = rhodot,
             psr_var = rho_var, psrdot_var = rhodot_var\<rparr>"
  let ?status = "fst (GaussNewton ls x P svp svv rho rhodot rho_var rhodot_var)"
  have main: "?status \<longleftrightarrow>
         4 \<le> length rho \<and>
         (\<exists>i<iteration_cap ls.
            (\<forall>j\<le>i. usable_at ls ?ep x j) \<and> (\<forall>j<i. \<not> converged_at ls ?ep x j) \<and>
            converged_at ls ?ep x i)"
    by (simp add: GaussNewton_def Let_def GaussNewton_iterate_status not_less)
  have few: "\<not> ?status" if "length rho < 4"
    using that main by simp
  have sing: "\<not> ?status" if "ill_conditioned ls (information_matrix ls x ?ep)"
  proof -
    have "\<not> usable_at ls ?ep x 0"
      using that by (simp add: usable_at_def)
    then show ?thesis
      using main by blast
  qed
  have cap: "\<not> ?status" if "\<forall>i<iteration_cap ls. \<not> converged_at ls ?ep x i"
    using that main by blast
  show ?thesis
    unfolding Let_def using main few sing cap by blast
qed

theorem GaussNewton_reports_failure_witness:
  "fst (GaussNewton settled_numerics (replicate 8 0) [] [] []
          [20000000, 21000000, 22000000, 23000000] [0, 0, 0, 0] [30, 30, 30, 30]
          [1 / 100, 1 / 100, 1 / 100, 1 / 100]) \<and>
   \<not> fst (GaussNewton settled_numerics (replicate 8 0) [] [] []
          [20000000, 21000000, 22000000] [0, 0, 0] [30, 30, 30] [1 / 100, 1 / 100, 1 / 100]) \<and>
   \<not> fst (GaussNewton (settled_numerics\<lparr>ill_conditioned := (\<lambda>N. True)\<rparr>) (replicate 8 0) [] [] []
          [20000000, 21000000, 22000000, 23000000] [0, 0, 0, 0] [30, 30, 30, 30]
          [1 / 100, 1 / 100, 1 / 100, 1 / 100]) \<and>
   \<not> fst (GaussNewton restless_numerics (replicate 8 0) [] [] []
          [20000000, 21000000, 22000000, 23000000] [0, 0, 0, 0] [30, 30, 30, 30]
          [1 / 100, 1 / 100, 1 / 100, 1 / 100])"
proof (intro conjI)
  let ?rho = "[20000000, 21000000, 22000000, 23000000] :: VectorXd"
  let ?ep = "\<lparr>sv_pos = [], sv_vel = [], psr = ?rho, psrdot = [0, 0, 0, 0],
             psr_var = [30, 30, 30, 30], psrdot_var = [1 / 100, 1 / 100, 1 / 100, 1 / 100]\<rparr>"
  note settled = GaussNewton_reports_failure [of "[]" "[]" ?rho "[0, 0, 0, 0]" "[30, 30, 30, 30]"
      "[1 / 100, 1 / 100, 1 / 100, 1 / 100]" settled_numerics "replicate 8 0" "[]", unfolded Let_def]
  have u: "usable_at settled_numerics ?ep (replicate 8 0) 0"
    by (simp add: usable_at_def settled_numerics_def)
  have c: "converged_at settled_numerics ?ep (replicate 8 0) 0"
    by (simp add: converged_at_def settled_numerics_def update_norm_def sum_list_replicate)
  have "\<exists>i<iteration_cap settled_numerics.
          (\<forall>j\<le>i. usable_at settled_numerics ?ep (replicate 8 0) j) \<and>
          (\<forall>j<i. \<not> converged_at settled_numerics ?ep (replicate 8 0) j) \<and>
          converged_at settled_numerics ?ep (replicate 8 0) i"
    using u c by (intro exI [of _ 0]) (simp add: settled_numerics_def)
  then show "fst (GaussNewton settled_numerics (replicate 8 0) [] [] [] ?rho [0, 0, 0, 0]
      [30, 30, 30, 30] [1 / 100, 1 / 100, 1 / 100, 1 / 100])"
    using settled by simp
next
  show "\<not> fst (GaussNewton settled_numerics (replicate 8 0) [] [] []
          [20000000, 21000000, 22000000] [0, 0, 0] [30, 30, 30] [1 / 100, 1 / 100, 1 / 100])"
    using GaussNewton_reports_failure [of "[]" "[]" "[20000000, 21000000, 22000000]" "[0, 0, 0]"
      "[30, 30, 30]" "[1 / 100, 1 / 100, 1 / 100]" settled_numerics "replicate 8 0" "[]",
      unfolded Let_def]
    by simp
next
  have "ill_conditioned (settled_numerics\<lparr>ill_conditioned := (\<lambda>N. True)\<rparr>)
      (information_matrix (settled_numerics\<lparr>ill_conditioned := (\<lambda>N. True)\<rparr>) (replicate 8 0)
         \<lparr>sv_pos = [], sv_vel = [], psr = [20000000, 21000000, 22000000, 23000000],
            psrdot = [0, 0, 0, 0], psr_var = [30, 30, 30, 30],
            psrdot_var = [1 / 100, 1 / 100, 1 / 100, 1 / 100]\<rparr>)"
    by simp
  then show "\<not> fst (GaussNewton (settled_numerics\<lparr>ill_conditioned := (\<lambda>N. True)\<rparr>) (replicate 8 0)
          [] [] [] [20000000, 21000000, 22000000, 23000000] [0, 0, 0, 0] [30, 30, 30, 30]
          [1 / 100, 1 / 100, 1 / 100, 1 / 100])"
    using GaussNewton_reports_failure [of "[]" "[]" "[20000000, 21000000, 22000000, 23000000]"
      "[0, 0, 0, 0]" "[30, 30, 30, 30]" "[1 / 100, 1 / 100, 1 / 100, 1 / 100]"
      "settled_numerics\<lparr>ill_conditioned := (\<lambda>N. True)\<rparr>" "replicate 8 0" "[]", unfolded Let_def]
    by blast
next
  have "\<forall>i<iteration_cap restless_numerics.
      \<not> converged_at restless_numerics
          \<lparr>sv_pos = [], sv_vel = [], psr = [20000000, 21000000, 22000000, 23000000],
             psrdot = [0, 0, 0, 0], psr_var = [30, 30, 30, 30],
             psrdot_var = [1 / 100, 1 / 100, 1 / 100, 1 / 100]\<rparr> (replicate 8 0) i"
    by (simp add: converged_at_def restless_numerics_def settled_numerics_def update_norm_def sum_list_replicate)
  then show "\<not> fst (GaussNewton restless_numerics (replicate 8 0) [] [] []
          [20000000, 21000000, 22000000, 23000000] [0, 0, 0, 0] [30, 30, 30, 30]
          [1 / 100, 1 / 100, 1 / 100, 1 / 100])"
    using GaussNewton_reports_failure [of "[]" "[]" "[20000000, 21000000, 22000000, 23000000]"
      "[0, 0, 0, 0]" "[30, 30, 30, 30]" "[1 / 100, 1 / 100, 1 / 100, 1 / 100]"
      restless_numerics "replicate 8 0" "[]", unfolded Let_def]
    by blast
qed

section \<open>The GNSS guard always holds\<close>

lemma sint_word_of_int_small:
  fixes k :: int
  assumes "0 \<le> k" "k < 2 ^ 31"
  shows "sint (word_of_int k :: c_int) = k"
proof -
  have "signed_take_bit (31::nat) k = k"
    using assms by (simp add: signed_take_bit_int_eq_self_iff)
  then show ?thesis
    by (simp add: sint_sbintrunc')
qed

lemma NOT_eq_0_iff: "(NOT (w :: c_int) = 0) = (w = - 1)"
  by (metis bit.compl_zero bit.double_compl)

lemma c_rem_20_nonneg:
  fixes i :: c_int
  assumes "0 \<le> sint i"
  shows "c_rem i 20 = word_of_int (sint i mod 20)"
  using assms by (simp add: c_rem_def signed_modulo_int_def sgn_if)

lemma gnss_guard_value_nonneg:
  fixes i :: c_int
  assumes "0 \<le> sint i"
  shows "gnss_guard_value i \<noteq> 0"
proof
  assume "gnss_guard_value i = 0"
  then have "(word_of_int (sint i mod 20) :: c_int) = - 1"
    using assms by (simp add: gnss_guard_value_def c_rem_20_nonneg NOT_eq_0_iff)
  then have "sint (word_of_int (sint i mod 20) :: c_int) = sint (- 1 :: c_int)"
    by simp
  moreover have "sint (word_of_int (sint i mod 20) :: c_int) = sint i mod 20"
    by (rule sint_word_of_int_small) simp_all
  ultimately have "sint i mod 20 = - 1"
    by simp
  moreover have "0 \<le> sint i mod 20"
    by simp
  ultimately show False
    by simp
qed

lemma loop_body_nonneg:
  fixes i :: c_int
  assumes "0 \<le> sint i"
  shows "loop_body i = [Mechanize_call, Propagate_call] @ gnss_branch"
  using gnss_guard_value_nonneg [OF assms] by (simp add: loop_body_def gnss_guard_def)

lemma main_loop_events:
  fixes k :: int
  assumes "0 \<le> k" "k + int (length rs) \<le> 2 ^ 31"
  shows "snd (main_loop rs (word_of_int k) tr) =
         tr @ concat (replicate (length rs) ([Mechanize_call, Propagate_call] @ gnss_branch))"
  using assms
proof (induction rs arbitrary: k tr)
  case Nil
  then show ?case by simp
next
  case (Cons r rs)
  have k: "0 \<le> k" "k < 2 ^ 31"
    using Cons.prems by simp_all
  have "0 \<le> sint (word_of_int k :: c_int)"
    using k by (simp add: sint_word_of_int_small)
  then have body: "loop_body (word_of_int k) = [Mechanize_call, Propagate_call] @ gnss_branch"
    by (rule loop_body_nonneg)
  have next_i: "(word_of_int k :: c_int) + 1 = word_of_int (k + 1)"
    by simp
  have "snd (main_loop rs (word_of_int (k + 1)) (tr @ loop_body (word_of_int k))) =
        (tr @ loop_body (word_of_int k)) @
          concat (replicate (length rs) ([Mechanize_call, Propagate_call] @ gnss_branch))"
    by (rule Cons.IH) (use Cons.prems in simp_all)
  moreover have "main_loop (r # rs) (word_of_int k) tr =
      main_loop rs (word_of_int (k + 1)) (tr @ loop_body (word_of_int k))"
    by (simp only: main_loop.simps next_i)
  ultimately show ?case
    by (simp only: body append_assoc length_Cons replicate_Suc concat.simps)
qed

lemma count_GnssUpdate_replicate:
  "length (filter (\<lambda>ev. ev = GnssUpdate_call)
      (concat (replicate n ([Mechanize_call, Propagate_call] @ gnss_branch)))) = n"
  by (induction n) (simp_all add: gnss_branch_def)

text \<open>
  C10.  For a counter \<open>i\<close> that is not negative, \<^verbatim>\<open>~(i % 20)\<close> is not zero, so the guard holds
  and the body of the loop makes the GNSS update, writes the result record and prints, after
  the two propagation calls.  Hence a run over \<open>n\<close> records (as many as an \<^verbatim>\<open>int\<close> can count)
  does all five things for every record: it makes \<open>n\<close> GNSS updates, not one in twenty.
\<close>

theorem gnss_update_every_iteration:
  fixes i :: c_int and rs :: "'r list"
  shows "(0 \<le> sint i \<longrightarrow>
            gnss_guard_value i \<noteq> 0 \<and> gnss_guard i \<and>
            loop_body i =
              [Mechanize_call, Propagate_call, GnssUpdate_call, Result_write, Console_print]) \<and>
         (int (length rs) \<le> 2 ^ 31 \<longrightarrow>
            main_events rs =
              concat (replicate (length rs)
                [Mechanize_call, Propagate_call, GnssUpdate_call, Result_write, Console_print]) \<and>
            length (filter (\<lambda>ev. ev = GnssUpdate_call) (main_events rs)) = length rs)"
proof (intro conjI impI)
  assume i: "0 \<le> sint i"
  show "gnss_guard_value i \<noteq> 0"
    by (rule gnss_guard_value_nonneg [OF i])
  then show "gnss_guard i"
    by (simp add: gnss_guard_def)
  show "loop_body i = [Mechanize_call, Propagate_call, GnssUpdate_call, Result_write, Console_print]"
    using loop_body_nonneg [OF i] by (simp add: gnss_branch_def)
next
  assume n: "int (length rs) \<le> 2 ^ 31"
  have ev: "main_events rs =
      concat (replicate (length rs) ([Mechanize_call, Propagate_call] @ gnss_branch))"
    using main_loop_events [of 0 rs "[]"] n by (simp add: main_events_def)
  then show "main_events rs =
      concat (replicate (length rs)
        [Mechanize_call, Propagate_call, GnssUpdate_call, Result_write, Console_print])"
    by (simp add: gnss_branch_def)
  show "length (filter (\<lambda>ev. ev = GnssUpdate_call) (main_events rs)) = length rs"
    by (simp only: ev count_GnssUpdate_replicate)
qed

theorem gnss_update_every_iteration_witness:
  "gnss_guard 7 \<and>
   main_events [(), (), ()] =
     [Mechanize_call, Propagate_call, GnssUpdate_call, Result_write, Console_print,
      Mechanize_call, Propagate_call, GnssUpdate_call, Result_write, Console_print,
      Mechanize_call, Propagate_call, GnssUpdate_call, Result_write, Console_print]"
  using gnss_update_every_iteration [of 7 "[(), (), ()]"]
  by (simp add: numeral_3_eq_3)

end
